theory Spec2Isabelle
  imports Complex_Main "HOL-Library.Sublist"
begin

section \<open>JavaScript numbers and array reads\<close>

text \<open>
  The sources compute with JavaScript numbers. A finite number is modelled as a real
  (rounding and overflow of IEEE doubles are not modelled). Where the source can read
  an array out of range it obtains \<^verbatim>\<open>undefined\<close>, and arithmetic on it gives NaN; such a
  value is \<open>None\<close> of type \<open>jsnum\<close>. Arithmetic on \<open>None\<close> stays \<open>None\<close> and every
  comparison with \<open>None\<close> is false, as with NaN.
\<close>

type_synonym jsnum = "real option"

definition jadd :: "jsnum \<Rightarrow> jsnum \<Rightarrow> jsnum" where
  "jadd a b = (case a of None \<Rightarrow> None | Some x \<Rightarrow> (case b of None \<Rightarrow> None | Some y \<Rightarrow> Some (x + y)))"

definition jsub :: "jsnum \<Rightarrow> jsnum \<Rightarrow> jsnum" where
  "jsub a b = (case a of None \<Rightarrow> None | Some x \<Rightarrow> (case b of None \<Rightarrow> None | Some y \<Rightarrow> Some (x - y)))"

definition jmul :: "jsnum \<Rightarrow> jsnum \<Rightarrow> jsnum" where
  "jmul a b = (case a of None \<Rightarrow> None | Some x \<Rightarrow> (case b of None \<Rightarrow> None | Some y \<Rightarrow> Some (x * y)))"

definition jlt :: "jsnum \<Rightarrow> jsnum \<Rightarrow> bool" where
  "jlt a b = (case a of None \<Rightarrow> False | Some x \<Rightarrow> (case b of None \<Rightarrow> False | Some y \<Rightarrow> x < y))"

definition jle :: "jsnum \<Rightarrow> jsnum \<Rightarrow> bool" where
  "jle a b = (case a of None \<Rightarrow> False | Some x \<Rightarrow> (case b of None \<Rightarrow> False | Some y \<Rightarrow> x \<le> y))"

text \<open>\<^verbatim>\<open>data[data.length - k]\<close>: \<^verbatim>\<open>undefined\<close> unless \<open>1 \<le> k \<le> length\<close>.\<close>

definition from_end :: "'a list \<Rightarrow> nat \<Rightarrow> 'a option" where
  "from_end xs k = (if 1 \<le> k \<and> k \<le> length xs then Some (xs ! (length xs - k)) else None)"

text \<open>\<^verbatim>\<open>xs.slice(-n)\<close> for a count \<open>n\<close>: the last \<open>n\<close> elements, all of them when \<open>n\<close> is
  larger than the length, and (since \<^verbatim>\<open>-0\<close> is \<^verbatim>\<open>0\<close>) the whole array when \<open>n = 0\<close>.\<close>

definition slice_last :: "nat \<Rightarrow> 'a list \<Rightarrow> 'a list" where
  "slice_last n xs = (if n = 0 then xs else drop (length xs - n) xs)"

section \<open>aiEngine.ts: data\<close>

record MarketData =
  timestamp :: int
  "open" :: real
  high :: real
  low :: real
  close :: real
  volume :: real

datatype Action = BUY | SELL | HOLD

record TradeSignal =
  action :: Action
  confidence :: real
  stopLoss :: jsnum
  takeProfit :: jsnum
  lotSize :: real
  reasoning :: string

record MACD =
  macd :: jsnum
  signal :: jsnum
  histogram :: jsnum

section \<open>aiEngine.ts: technical indicators\<close>

text \<open>
  \<^verbatim>\<open>calculateSMA\<close>: with fewer than \<open>period\<close> elements the last element is returned
  (\<^verbatim>\<open>undefined\<close> for the empty array); otherwise the left-to-right sum of the last
  \<open>period\<close> elements is divided by \<open>period\<close>. No call site passes \<open>period = 0\<close>; the
  division by zero there gives a value that is not a finite number.
\<close>

definition calculateSMA :: "real list \<Rightarrow> nat \<Rightarrow> jsnum" where
  "calculateSMA data period =
     (if length data < period then from_end data 1
      else if period = 0 then None
      else Some (foldl (+) 0 (slice_last period data) / real period))"

text \<open>The loop of \<^verbatim>\<open>calculateEMA\<close> over \<^verbatim>\<open>data[period], ..., data[length - 1]\<close>.\<close>

fun ema_loop :: "real \<Rightarrow> real \<Rightarrow> real list \<Rightarrow> real" where
  "ema_loop multiplier ema [] = ema"
| "ema_loop multiplier ema (x # xs) = ema_loop multiplier ((x - ema) * multiplier + ema) xs"

definition calculateEMA :: "real list \<Rightarrow> nat \<Rightarrow> jsnum" where
  "calculateEMA data period =
     (if length data < period then from_end data 1
      else (case calculateSMA (take period data) period of
              None \<Rightarrow> None
            | Some seed \<Rightarrow> Some (ema_loop (2 / (real period + 1)) seed (drop period data))))"

text \<open>
  The loop of \<^verbatim>\<open>calculateRSI\<close>, from index \<open>i\<close> to the end of the array, on the pair
  (gains, losses). It is entered with \<open>i = length - period \<ge> 1\<close>, so \<^verbatim>\<open>data[i - 1]\<close> is
  in range.
\<close>

function rsi_loop :: "real list \<Rightarrow> nat \<Rightarrow> real \<times> real \<Rightarrow> real \<times> real" where
  "rsi_loop data i gl =
     (if i < length data
      then (let change = data ! i - data ! (i - 1)
            in rsi_loop data (Suc i)
                 (if change > 0 then (fst gl + change, snd gl) else (fst gl, snd gl - change)))
      else gl)"
  by pat_completeness auto
termination
  by (relation "measure (\<lambda>(data, i, gl). length data - i)") auto

declare rsi_loop.simps [simp del]

definition calculateRSI :: "real list \<Rightarrow> nat \<Rightarrow> jsnum" where
  "calculateRSI data period =
     (if length data < period + 1 then Some 50
      else (let gl = rsi_loop data (length data - period) (0, 0)
            in if period = 0 then None
               else (let avgGain = fst gl / real period;
                         avgLoss = snd gl / real period
                     in if avgLoss = 0 then Some 100
                        else Some (100 - 100 / (1 + avgGain / avgLoss)))))"

text \<open>
  \<^verbatim>\<open>calculateMACD\<close>: the signal line is the 9-period EMA of the one-element array
  \<^verbatim>\<open>[macd]\<close>. When either EMA is \<^verbatim>\<open>undefined\<close> (empty input), \<^verbatim>\<open>macd\<close> is NaN,
  \<^verbatim>\<open>calculateEMA([NaN], 9)\<close> returns its only element, and the histogram is NaN - NaN.
\<close>

definition calculateMACD :: "real list \<Rightarrow> MACD" where
  "calculateMACD data =
     (let ema12 = calculateEMA data 12;
          ema26 = calculateEMA data 26
      in (case jsub ema12 ema26 of
            None \<Rightarrow> \<lparr>macd = None, signal = None, histogram = None\<rparr>
          | Some m \<Rightarrow>
              (let signal = calculateEMA [m] 9
               in \<lparr>macd = Some m, signal = signal, histogram = jsub (Some m) signal\<rparr>)))"

text \<open>The true ranges pushed by the loop of \<^verbatim>\<open>calculateATR\<close> for \<open>i = 1, ..., length - 1\<close>.\<close>

definition trueRange :: "MarketData \<Rightarrow> MarketData \<Rightarrow> real" where
  "trueRange prev cur =
     max (high cur - low cur)
         (max \<bar>high cur - close prev\<bar> \<bar>low cur - close prev\<bar>)"

fun trueRanges :: "MarketData list \<Rightarrow> real list" where
  "trueRanges (prev # cur # rest) = trueRange prev cur # trueRanges (cur # rest)"
| "trueRanges _ = []"

definition calculateATR :: "MarketData list \<Rightarrow> nat \<Rightarrow> jsnum" where
  "calculateATR data period =
     (if length data < period + 1 then Some 0
      else calculateSMA (slice_last period (trueRanges data)) period)"

section \<open>aiEngine.ts: the reasoning string\<close>

text \<open>
  \<^verbatim>\<open>x.toFixed(f)\<close> on a finite number: the sign, then the integer nearest to
  \<open>10^f * |x|\<close> (ties upwards) written in decimal, padded with zeros to at least
  \<open>f + 1\<close> digits, with a point before its last \<open>f\<close> digits. (From \<open>10^21\<close> on
  JavaScript prints an exponent instead; that range is not modelled.)
\<close>

definition digit :: "nat \<Rightarrow> char" where
  "digit d = ''0123456789'' ! d"

fun digits :: "nat \<Rightarrow> string" where
  "digits n = (if n < 10 then [digit n] else digits (n div 10) @ [digit (n mod 10)])"

declare digits.simps [simp del]

definition toFixed :: "nat \<Rightarrow> real \<Rightarrow> string" where
  "toFixed f x =
     (let n = nat \<lfloor>\<bar>x\<bar> * 10 ^ f + 1 / 2\<rfloor>;
          ds = digits n;
          padded = replicate (Suc f - length ds) CHR ''0'' @ ds
      in (if x < 0 then ''-'' else [])
         @ take (length padded - f) padded
         @ (if f = 0 then [] else ''.'' @ drop (length padded - f) padded))"

fun join :: "string list \<Rightarrow> string" where
  "join [] = ''''"
| "join [r] = r"
| "join (r # rs) = r @ '', '' @ join rs"

definition action_name :: "Action \<Rightarrow> string" where
  "action_name a = (case a of BUY \<Rightarrow> ''BUY'' | SELL \<Rightarrow> ''SELL'' | HOLD \<Rightarrow> ''HOLD'')"

text \<open>The array \<^verbatim>\<open>reasons\<close> built by \<^verbatim>\<open>generateReasoning\<close>.\<close>

definition reasons :: "Action \<Rightarrow> jsnum \<Rightarrow> MACD \<Rightarrow> real list \<Rightarrow> string list" where
  "reasons a rsi m closes =
     (case a of
        BUY \<Rightarrow>
          (if jlt rsi (Some 30) then [''RSI oversold''] else [])
          @ (if jlt (Some 0) (histogram m) then [''MACD bullish''] else [])
          @ (if jlt (from_end closes 5) (from_end closes 1) then [''Uptrend detected''] else [])
      | SELL \<Rightarrow>
          (if jlt (Some 70) rsi then [''RSI overbought''] else [])
          @ (if jlt (histogram m) (Some 0) then [''MACD bearish''] else [])
          @ (if jlt (from_end closes 1) (from_end closes 5) then [''Downtrend detected''] else [])
      | HOLD \<Rightarrow> [''Market conditions unclear''])"

definition generateReasoning :: "Action \<Rightarrow> real \<Rightarrow> jsnum \<Rightarrow> MACD \<Rightarrow> real list \<Rightarrow> string" where
  "generateReasoning a conf rsi m closes =
     action_name a @ '' signal ('' @ toFixed 1 conf @ ''% confidence): '' @ join (reasons a rsi m closes)"

section \<open>aiEngine.ts: the decision model\<close>

text \<open>
  The TensorFlow.js network is not part of the sources: its two operations are
  parameters. \<open>predict w window\<close> is \<^verbatim>\<open>model.predict\<close> on the features extracted from
  the window, giving the three class probabilities (buy, sell, hold), or \<open>None\<close> when
  the library call throws. \<open>fit w window label\<close> is \<^verbatim>\<open>model.fit\<close> with
  \<^verbatim>\<open>epochs: 1\<close> on the single example (features of the window, label): the parameters
  after that one training step, or \<open>None\<close> when the call throws. The feature vector of
  \<^verbatim>\<open>extractFeatures\<close> is consumed by these two calls only.
\<close>

record 'w TF =
  predict :: "'w \<Rightarrow> MarketData list \<Rightarrow> (real \<times> real \<times> real) option"
  fit :: "'w \<Rightarrow> MarketData list \<Rightarrow> real list \<Rightarrow> 'w option"

record 'w AITradingEngine =
  model :: "'w option"
  isTraining :: bool

definition hold_signal :: "string \<Rightarrow> TradeSignal" where
  "hold_signal why =
     \<lparr>action = HOLD, confidence = 0, stopLoss = Some 0, takeProfit = Some 0, lotSize = 0,
      reasoning = why\<rparr>"

definition choose_action :: "real \<Rightarrow> real \<Rightarrow> real \<Rightarrow> Action" where
  "choose_action buyProb sellProb holdProb =
     (let maxProb = max buyProb (max sellProb holdProb)
      in if maxProb = buyProb then BUY else if maxProb = sellProb then SELL else HOLD)"

definition analyzeMarket :: "'w TF \<Rightarrow> 'w AITradingEngine \<Rightarrow> MarketData list \<Rightarrow> TradeSignal" where
  "analyzeMarket tf e marketData =
     (case model e of
        None \<Rightarrow> hold_signal ''Insufficient data for analysis''
      | Some w \<Rightarrow>
          if length marketData < 50 then hold_signal ''Insufficient data for analysis''
          else (case predict tf w marketData of
                  None \<Rightarrow> hold_signal ''Analysis failed''
                | Some (buyProb, sellProb, holdProb) \<Rightarrow>
                    (let maxProb = max buyProb (max sellProb holdProb);
                         a = choose_action buyProb sellProb holdProb;
                         currentPrice = close (last marketData);
                         closes = map close marketData;
                         atr = calculateATR marketData 14;
                         rsi = calculateRSI closes 14;
                         m = calculateMACD closes;
                         stopLossDistance = jmul atr (Some 2);
                         takeProfitDistance = jmul atr (Some 3)
                     in \<lparr>action = a,
                         confidence = maxProb * 100,
                         stopLoss = (if a = BUY then jsub (Some currentPrice) stopLossDistance
                                     else jadd (Some currentPrice) stopLossDistance),
                         takeProfit = (if a = BUY then jadd (Some currentPrice) takeProfitDistance
                                       else jsub (Some currentPrice) takeProfitDistance),
                         lotSize = min (0.1 * maxProb) 0.05,
                         reasoning = generateReasoning a maxProb rsi m closes\<rparr>)))"

text \<open>
  \<^verbatim>\<open>learnFromTrade\<close>. The label is the one-hot target over (buy, sell, hold). The
  function runs in two parts, separated by \<^verbatim>\<open>await this.model.fit(...)\<close>:
  \<open>learn_begin\<close> is the part up to the await (the guard, raising the flag, building the
  example), \<open>learn_end\<close> the part after it (the fitted parameters are in place, the
  flag is lowered in \<^verbatim>\<open>finally\<close>). A throwing \<^verbatim>\<open>fit\<close> is caught and logged, and the
  flag is lowered all the same.
\<close>

definition label :: "Action \<Rightarrow> real \<Rightarrow> real list" where
  "label a profitLoss =
     (if profitLoss > 0
      then (if a = BUY then [1, 0, 0] else if a = SELL then [0, 1, 0] else [0, 0, 1])
      else (if a = BUY then [0, 1, 0] else if a = SELL then [1, 0, 0] else [0, 0, 1]))"

definition learn_begin ::
  "'w AITradingEngine \<Rightarrow> MarketData list \<Rightarrow> Action \<Rightarrow> real
     \<Rightarrow> 'w AITradingEngine \<times> (MarketData list \<times> real list) option" where
  "learn_begin e marketData a profitLoss =
     (if model e = None \<or> isTraining e then (e, None)
      else (e\<lparr>isTraining := True\<rparr>, Some (marketData, label a profitLoss)))"

definition learn_end ::
  "'w TF \<Rightarrow> 'w AITradingEngine \<Rightarrow> (MarketData list \<times> real list) option \<Rightarrow> 'w AITradingEngine" where
  "learn_end tf e pending =
     (case pending of
        None \<Rightarrow> e
      | Some (window, target) \<Rightarrow>
          (case model e of
             None \<Rightarrow> e\<lparr>isTraining := False\<rparr>
           | Some w \<Rightarrow>
               (case fit tf w window target of
                  None \<Rightarrow> e\<lparr>isTraining := False\<rparr>
                | Some w' \<Rightarrow> e\<lparr>model := Some w', isTraining := False\<rparr>)))"

definition learnFromTrade ::
  "'w TF \<Rightarrow> 'w AITradingEngine \<Rightarrow> MarketData list \<Rightarrow> Action \<Rightarrow> real \<Rightarrow> 'w AITradingEngine" where
  "learnFromTrade tf e marketData a profitLoss =
     (case learn_begin e marketData a profitLoss of (e', pending) \<Rightarrow> learn_end tf e' pending)"

section \<open>aiEngine.ts: inputs used in examples\<close>


definition wide_candle :: MarketData where
  "wide_candle = \<lparr>timestamp = 0, open = 1, high = 2, low = 1, close = 1, volume = 1\<rparr>"

definition counting_tf :: "real \<times> real \<times> real \<Rightarrow> nat TF" where
  "counting_tf p = \<lparr>predict = (\<lambda>w window. Some p), fit = (\<lambda>w window target. Some (Suc w))\<rparr>"

definition fresh_engine :: "nat AITradingEngine" where
  "fresh_engine = \<lparr>model = Some 0, isTraining = False\<rparr>"

section \<open>mt5Bridge.ts: data\<close>

record MT5Config =
  accountNumber :: string
  password :: string
  server :: string
  symbol :: string

datatype PositionType = PBUY | PSELL

record MT5Position =
  ticket :: int
  symbol :: string
  type :: PositionType
  volume :: real
  openPrice :: real
  currentPrice :: real
  profit :: real
  stopLoss :: jsnum
  takeProfit :: jsnum
  openTime :: int

record MT5AccountInfo =
  balance :: real
  equity :: real
  margin :: real
  freeMargin :: real
  profit :: real
  leverage :: real

text \<open>
  Position objects are shared: the bridge keeps them in its array, mutates them in
  place, and hands the same objects out in the copies of the array it returns. So
  positions live in a heap of the runtime and arrays hold references (indices into
  the heap).
\<close>

type_synonym ref = nat

record MT5Bridge =
  config :: "MT5Config option"
  connected :: bool
  positions :: "ref list"
  accountInfo :: MT5AccountInfo
  marketDataHistory :: "string \<Rightarrow> MarketData list option"
  simulatedPrice :: real

text \<open>
  The runtime: \<^verbatim>\<open>Math.random()\<close> and \<^verbatim>\<open>Date.now()\<close> answer from two given sequences,
  one value per call, and the heap holds the position objects.
\<close>

record Runtime =
  randoms :: "nat \<Rightarrow> real"
  drawn :: nat
  clock :: "nat \<Rightarrow> int"
  asked :: nat
  heap :: "MT5Position list"

definition Math_random :: "Runtime \<Rightarrow> real \<times> Runtime" where
  "Math_random w = (randoms w (drawn w), w\<lparr>drawn := Suc (drawn w)\<rparr>)"

definition Date_now :: "Runtime \<Rightarrow> int \<times> Runtime" where
  "Date_now w = (clock w (asked w), w\<lparr>asked := Suc (asked w)\<rparr>)"

datatype Failure = NotConnected | InvalidCredentials | PositionNotFound | TypeError

text \<open>
  A bridge method takes the bridge and the runtime and returns its result, or the
  error it throws, together with the bridge and the runtime as it leaves them.
\<close>

type_synonym 'a outcome = "(Failure + 'a) \<times> MT5Bridge \<times> Runtime"

definition new_MT5Bridge :: MT5Bridge where
  "new_MT5Bridge =
     \<lparr>config = None, connected = False, positions = [],
      accountInfo = \<lparr>balance = 10000, equity = 10000, margin = 0, freeMargin = 10000,
                     profit = 0, leverage = 100\<rparr>,
      marketDataHistory = (\<lambda>s. None), simulatedPrice = 1.0950\<rparr>"

section \<open>mt5Bridge.ts: market data\<close>

text \<open>
  The loop of \<^verbatim>\<open>initializeMarketData\<close>. \<open>candle_loop (Suc i) ...\<close> runs the body for the
  loop variable \<open>i\<close> and goes on with \<open>i - 1\<close>; the loop starts at \<open>i = 100\<close>.
\<close>

fun candle_loop ::
  "nat \<Rightarrow> int \<Rightarrow> real \<Rightarrow> MarketData list \<Rightarrow> Runtime \<Rightarrow> MarketData list \<times> Runtime" where
  "candle_loop 0 now price history w = (history, w)"
| "candle_loop (Suc i) now price history w =
     (case Math_random w of (r1, w1) \<Rightarrow>
        (let change = (r1 - 0.5) * 0.0020;
             price' = price * (1 + change);
             opn = price'
         in case Math_random w1 of (r2, w2) \<Rightarrow>
            (let cls = price' * (1 + (r2 - 0.5) * 0.0010)
             in case Math_random w2 of (r3, w3) \<Rightarrow>
                (let hi = max opn cls * (1 + r3 * 0.0005)
                 in case Math_random w3 of (r4, w4) \<Rightarrow>
                    (let lo = min opn cls * (1 - r4 * 0.0005)
                     in case Math_random w4 of (r5, w5) \<Rightarrow>
                        candle_loop i now price'
                          (history @ [\<lparr>timestamp = now - int i * 60000, open = opn, high = hi,
                                       low = lo, close = cls, volume = r5 * 1000 + 500\<rparr>])
                          w5)))))"

definition initializeMarketData :: "string \<Rightarrow> MT5Bridge \<Rightarrow> Runtime \<Rightarrow> (Failure + unit) \<times> MT5Bridge \<times> Runtime" where
  "initializeMarketData symb b w =
     (case Date_now w of (now, w1) \<Rightarrow>
        (case candle_loop 101 now (simulatedPrice b) [] w1 of (history, w2) \<Rightarrow>
           (let b1 = b\<lparr>marketDataHistory := (marketDataHistory b)(symb \<mapsto> history)\<rparr>
            in case from_end history 1 of
                 None \<Rightarrow> (Inl TypeError, b1, w2)
               | Some c \<Rightarrow> (Inr (), b1\<lparr>simulatedPrice := close c\<rparr>, w2))))"

text \<open>
  \<^verbatim>\<open>connect\<close> stores the configuration before it validates it; an empty string is
  falsy. (The one-second timer has no effect on the state.)
\<close>

definition connect :: "MT5Config \<Rightarrow> MT5Bridge \<Rightarrow> Runtime \<Rightarrow> bool outcome" where
  "connect cfg b w =
     (let b1 = b\<lparr>config := Some cfg\<rparr>
      in if accountNumber cfg = [] \<or> password cfg = [] \<or> server cfg = []
         then (Inl InvalidCredentials, b1, w)
         else (case initializeMarketData (MT5Config.symbol cfg) (b1\<lparr>connected := True\<rparr>) w of
                 (Inl e, b2, w2) \<Rightarrow> (Inl e, b2, w2)
               | (Inr u, b2, w2) \<Rightarrow> (Inr True, b2, w2)))"

definition disconnect :: "MT5Bridge \<Rightarrow> MT5Bridge" where
  "disconnect b = b\<lparr>connected := False, config := None\<rparr>"

definition isConnected :: "MT5Bridge \<Rightarrow> bool" where
  "isConnected b = connected b"

definition updateMarketData :: "string \<Rightarrow> MT5Bridge \<Rightarrow> Runtime \<Rightarrow> unit outcome" where
  "updateMarketData symb b w =
     (case marketDataHistory b symb of
        None \<Rightarrow> (Inr (), b, w)
      | Some history \<Rightarrow>
          (case Math_random w of (r1, w1) \<Rightarrow>
             (let change = (r1 - 0.5) * 0.0015;
                  b1 = b\<lparr>simulatedPrice := simulatedPrice b * (1 + change)\<rparr>
              in case from_end history 1 of
                   None \<Rightarrow> (Inl TypeError, b1, w1)
                 | Some prev \<Rightarrow>
                     (let opn = close prev;
                          cls = simulatedPrice b1
                      in case Math_random w1 of (r2, w2) \<Rightarrow>
                         (let hi = max opn cls * (1 + r2 * 0.0005)
                          in case Math_random w2 of (r3, w3) \<Rightarrow>
                             (let lo = min opn cls * (1 - r3 * 0.0005)
                              in case Date_now w3 of (now, w4) \<Rightarrow>
                                 (case Math_random w4 of (r4, w5) \<Rightarrow>
                                    (let pushed = history @ [\<lparr>timestamp = now, open = opn, high = hi,
                                                               low = lo, close = cls,
                                                               volume = r4 * 1000 + 500\<rparr>];
                                         kept = (if length pushed > 200 then tl pushed else pushed)
                                     in (Inr (),
                                         b1\<lparr>marketDataHistory := (marketDataHistory b1)(symb \<mapsto> kept)\<rparr>,
                                         w5)))))))))"

definition getMarketData :: "string \<Rightarrow> nat \<Rightarrow> MT5Bridge \<Rightarrow> Runtime \<Rightarrow> MarketData list outcome" where
  "getMarketData symb bars b w =
     (if \<not> connected b then (Inl NotConnected, b, w)
      else (case updateMarketData symb b w of
              (Inl e, b1, w1) \<Rightarrow> (Inl e, b1, w1)
            | (Inr u, b1, w1) \<Rightarrow>
                (Inr (slice_last bars (case marketDataHistory b1 symb of None \<Rightarrow> [] | Some h \<Rightarrow> h)),
                 b1, w1)))"

definition getCurrentPrice :: "string \<Rightarrow> MT5Bridge \<Rightarrow> real" where
  "getCurrentPrice symb b =
     (case marketDataHistory b symb of
        None \<Rightarrow> 0
      | Some h \<Rightarrow> (case from_end h 1 of None \<Rightarrow> 0 | Some c \<Rightarrow> close c))"

section \<open>mt5Bridge.ts: positions and the account\<close>

definition updateAccountInfo :: "MT5Bridge \<Rightarrow> Runtime \<Rightarrow> MT5Bridge" where
  "updateAccountInfo b w =
     (let ps = map (\<lambda>r. heap w ! r) (positions b);
          a = accountInfo b;
          totalProfit = foldl (\<lambda>sum p. sum + MT5Position.profit p) 0 ps;
          totalMargin = foldl (\<lambda>sum p. sum + MT5Position.volume p * openPrice p * 100000 / leverage a) 0 ps
      in b\<lparr>accountInfo :=
             a\<lparr>profit := totalProfit,
               equity := balance a + totalProfit,
               margin := totalMargin,
               freeMargin := balance a + totalProfit - totalMargin\<rparr>\<rparr>)"

definition openPosition ::
  "string \<Rightarrow> PositionType \<Rightarrow> real \<Rightarrow> jsnum \<Rightarrow> jsnum \<Rightarrow> MT5Bridge \<Rightarrow> Runtime \<Rightarrow> ref outcome" where
  "openPosition symb ty vol sl tp b w =
     (if \<not> connected b then (Inl NotConnected, b, w)
      else (case getMarketData symb 1 b w of
              (Inl e, b1, w1) \<Rightarrow> (Inl e, b1, w1)
            | (Inr marketData, b1, w1) \<Rightarrow>
                (case marketData of
                   [] \<Rightarrow> (Inl TypeError, b1, w1)
                 | c # rest \<Rightarrow>
                     (case Date_now w1 of (t, w2) \<Rightarrow>
                        (case Date_now w2 of (ot, w3) \<Rightarrow>
                           (let position = \<lparr>ticket = t, symbol = symb, type = ty, volume = vol,
                                            openPrice = close c, currentPrice = close c, profit = 0,
                                            stopLoss = sl, takeProfit = tp, openTime = ot\<rparr>;
                                r = length (heap w3);
                                w4 = w3\<lparr>heap := heap w3 @ [position]\<rparr>;
                                b2 = b1\<lparr>positions := positions b1 @ [r]\<rparr>
                            in (Inr r, updateAccountInfo b2 w4, w4)))))))"

text \<open>\<^verbatim>\<open>findIndex\<close>: the index of the first element satisfying the test, if any.\<close>

fun findIndex :: "('a \<Rightarrow> bool) \<Rightarrow> 'a list \<Rightarrow> nat option" where
  "findIndex P [] = None"
| "findIndex P (x # xs) =
     (if P x then Some 0 else (case findIndex P xs of None \<Rightarrow> None | Some i \<Rightarrow> Some (Suc i)))"

definition closePosition :: "int \<Rightarrow> MT5Bridge \<Rightarrow> Runtime \<Rightarrow> real outcome" where
  "closePosition t b w =
     (if \<not> connected b then (Inl NotConnected, b, w)
      else (case findIndex (\<lambda>r. ticket (heap w ! r) = t) (positions b) of
              None \<Rightarrow> (Inl PositionNotFound, b, w)
            | Some positionIndex \<Rightarrow>
                (let position = heap w ! (positions b ! positionIndex);
                     pr = MT5Position.profit position;
                     a = accountInfo b;
                     b1 = b\<lparr>accountInfo := a\<lparr>balance := balance a + pr, profit := profit a - pr\<rparr>\<rparr>;
                     b2 = b1\<lparr>positions := take positionIndex (positions b1)
                                             @ drop (Suc positionIndex) (positions b1)\<rparr>
                 in (Inr pr, updateAccountInfo b2 w, w))))"

text \<open>
  Whether a price has crossed the stop or the target of a position, as
  \<^verbatim>\<open>getPositions\<close> tests it; a comparison with NaN is false.
\<close>

definition crossed :: "MT5Position \<Rightarrow> real \<Rightarrow> bool" where
  "crossed p price =
     (if type p = PBUY
      then jle (Some price) (MT5Position.stopLoss p) \<or> jle (MT5Position.takeProfit p) (Some price)
      else jle (MT5Position.stopLoss p) (Some price) \<or> jle (Some price) (MT5Position.takeProfit p))"

definition mark :: "MT5Position \<Rightarrow> real \<Rightarrow> MT5Position" where
  "mark p price =
     (let priceDiff = (if type p = PBUY then price - openPrice p else openPrice p - price)
      in p\<lparr>currentPrice := price, MT5Position.profit := priceDiff * MT5Position.volume p * 100000\<rparr>)"

text \<open>
  One pass of the body of the loop of \<^verbatim>\<open>getPositions\<close>, for the element at index \<open>i\<close>
  of the array.
\<close>

definition visit :: "nat \<Rightarrow> MT5Bridge \<Rightarrow> Runtime \<Rightarrow> unit outcome" where
  "visit i b w =
     (let r = positions b ! i
      in case getMarketData (MT5Position.symbol (heap w ! r)) 1 b w of
           (Inl e, b1, w1) \<Rightarrow> (Inl e, b1, w1)
         | (Inr marketData, b1, w1) \<Rightarrow>
             (case marketData of
                [] \<Rightarrow> (Inl TypeError, b1, w1)
              | c # rest \<Rightarrow>
                  (let position = mark (heap w1 ! r) (close c);
                       w2 = w1\<lparr>heap := (heap w1)[r := position]\<rparr>
                   in if crossed position (close c)
                      then (case closePosition (ticket position) b1 w2 of
                              (Inl e, b3, w3) \<Rightarrow> (Inl e, b3, w3)
                            | (Inr pr, b3, w3) \<Rightarrow> (Inr (), b3, w3))
                      else (Inr (), b1, w2))))"

text \<open>
  The \<^verbatim>\<open>for ... of\<close> loop over \<^verbatim>\<open>this.positions\<close>: the array iterator keeps an index
  and compares it with the current length of the array before each step, while the
  body may remove an element from that same array.
\<close>

lemma updateMarketData_positions:
  "updateMarketData symb b w = (res, b1, w1) \<Longrightarrow> positions b1 = positions b"
  by (auto simp: updateMarketData_def Math_random_def Date_now_def Let_def
           split: option.splits)

lemma getMarketData_positions:
  "getMarketData symb bars b w = (res, b1, w1) \<Longrightarrow> positions b1 = positions b"
  by (auto simp: getMarketData_def split: if_splits prod.splits sum.splits
           dest: updateMarketData_positions)

lemma closePosition_length:
  "closePosition t b w = (res, b1, w1) \<Longrightarrow> length (positions b1) \<le> length (positions b)"
  by (auto simp: closePosition_def updateAccountInfo_def Let_def split: if_splits option.splits)

lemma visit_length:
  assumes "visit i b w = (res, b1, w1)"
  shows "length (positions b1) \<le> length (positions b)"
proof -
  obtain res0 b0 w0 where
    g: "getMarketData (MT5Position.symbol (heap w ! (positions b ! i))) 1 b w = (res0, b0, w0)"
    by (metis prod_cases3)
  have p0: "positions b0 = positions b" by (rule getMarketData_positions[OF g])
  show ?thesis
  proof (cases res0)
    case (Inl e)
    with assms g have "b1 = b0" by (simp add: visit_def)
    with p0 show ?thesis by simp
  next
    case (Inr md)
    show ?thesis
    proof (cases md)
      case Nil
      with assms g Inr have "b1 = b0" by (simp add: visit_def)
      with p0 show ?thesis by simp
    next
      case (Cons c rest)
      let ?p = "mark (heap w0 ! (positions b ! i)) (close c)"
      let ?w2 = "w0\<lparr>heap := (heap w0)[positions b ! i := ?p]\<rparr>"
      show ?thesis
      proof (cases "crossed ?p (close c)")
        case True
        obtain res3 b3 w3 where c3: "closePosition (ticket ?p) b0 ?w2 = (res3, b3, w3)"
          by (metis prod_cases3)
        from closePosition_length[OF c3] p0 have "length (positions b3) \<le> length (positions b)"
          by simp
        moreover from assms g Inr Cons True c3 have "b1 = b3"
          by (cases res3) (simp_all add: visit_def Let_def)
        ultimately show ?thesis by simp
      next
        case False
        with assms g Inr Cons have "b1 = b0" by (simp add: visit_def Let_def)
        with p0 show ?thesis by simp
      qed
    qed
  qed
qed

function visit_from :: "nat \<Rightarrow> MT5Bridge \<Rightarrow> Runtime \<Rightarrow> unit outcome" where
  "visit_from i b w =
     (if i < length (positions b)
      then (case visit i b w of
              (Inl e, b1, w1) \<Rightarrow> (Inl e, b1, w1)
            | (Inr u, b1, w1) \<Rightarrow> visit_from (Suc i) b1 w1)
      else (Inr (), b, w))"
  by pat_completeness auto
termination
proof (relation "measure (\<lambda>(i, b, w). length (positions b) - i)", goal_cases)
  case 1
  show ?case by simp
next
  case (2 i b w x1 x2 u b1 w1)
  then have "visit i b w = (Inr u, b1, w1)" by simp
  from visit_length[OF this] 2(1) show ?case by simp
qed

declare visit_from.simps [simp del]

definition getPositions :: "MT5Bridge \<Rightarrow> Runtime \<Rightarrow> ref list outcome" where
  "getPositions b w =
     (if \<not> connected b then (Inl NotConnected, b, w)
      else (case visit_from 0 b w of
              (Inl e, b1, w1) \<Rightarrow> (Inl e, b1, w1)
            | (Inr u, b1, w1) \<Rightarrow> (Inr (positions b1), b1, w1)))"

definition getAccountInfo :: "MT5Bridge \<Rightarrow> Runtime \<Rightarrow> MT5AccountInfo outcome" where
  "getAccountInfo b w =
     (if \<not> connected b then (Inl NotConnected, b, w)
      else (let b1 = updateAccountInfo b w in (Inr (accountInfo b1), b1, w)))"

section \<open>Notions used to state the properties\<close>

text \<open>
  What one market-data request does to a symbol that has a history: the price after
  the step, the candle it pushes, the array after the push (and the eviction past 200
  bars), the bridge and the runtime afterwards.
\<close>

definition next_price :: "MT5Bridge \<Rightarrow> Runtime \<Rightarrow> real" where
  "next_price b w = simulatedPrice b * (1 + (randoms w (drawn w) - 0.5) * 0.0015)"

definition next_candle :: "MarketData \<Rightarrow> MT5Bridge \<Rightarrow> Runtime \<Rightarrow> MarketData" where
  "next_candle prev b w =
     \<lparr>timestamp = clock w (asked w), open = close prev,
      high = max (close prev) (next_price b w) * (1 + randoms w (drawn w + 1) * 0.0005),
      low = min (close prev) (next_price b w) * (1 - randoms w (drawn w + 2) * 0.0005),
      close = next_price b w,
      volume = randoms w (drawn w + 3) * 1000 + 500\<rparr>"

definition push_candle :: "MarketData list \<Rightarrow> MarketData \<Rightarrow> MarketData list" where
  "push_candle h c = (if length (h @ [c]) > 200 then tl (h @ [c]) else h @ [c])"

definition ticked :: "string \<Rightarrow> MarketData list \<Rightarrow> MT5Bridge \<Rightarrow> Runtime \<Rightarrow> MT5Bridge" where
  "ticked symb h b w =
     b\<lparr>simulatedPrice := next_price b w,
       marketDataHistory := (marketDataHistory b)(symb \<mapsto> push_candle h (next_candle (last h) b w))\<rparr>"

definition drew :: "Runtime \<Rightarrow> Runtime" where
  "drew w = w\<lparr>drawn := drawn w + 4, asked := Suc (asked w)\<rparr>"

text \<open>The three equations between the stored account and the open positions.\<close>

definition account_consistent :: "MT5Bridge \<Rightarrow> Runtime \<Rightarrow> bool" where
  "account_consistent b w =
     (let a = accountInfo b;
          ps = map (\<lambda>r. heap w ! r) (positions b)
      in equity a = balance a + sum_list (map MT5Position.profit ps)
         \<and> freeMargin a = equity a - margin a
         \<and> margin a = sum_list (map (\<lambda>p. MT5Position.volume p * openPrice p * 100000 / leverage a) ps))"

text \<open>Sequences of calls of the bridge, each call leaving its result aside.\<close>

datatype Call =
    Connect MT5Config
  | Disconnect
  | GetMarketData string nat
  | OpenPosition string PositionType real jsnum jsnum
  | ClosePosition int
  | GetPositions
  | GetAccountInfo

fun perform :: "Call \<Rightarrow> MT5Bridge \<times> Runtime \<Rightarrow> MT5Bridge \<times> Runtime" where
  "perform (Connect cfg) (b, w) = snd (connect cfg b w)"
| "perform Disconnect (b, w) = (disconnect b, w)"
| "perform (GetMarketData symb bars) (b, w) = snd (getMarketData symb bars b w)"
| "perform (OpenPosition symb ty vol sl tp) (b, w) = snd (openPosition symb ty vol sl tp b w)"
| "perform (ClosePosition t) (b, w) = snd (closePosition t b w)"
| "perform GetPositions (b, w) = snd (getPositions b w)"
| "perform GetAccountInfo (b, w) = snd (getAccountInfo b w)"

fun perform_all :: "Call list \<Rightarrow> MT5Bridge \<times> Runtime \<Rightarrow> MT5Bridge \<times> Runtime" where
  "perform_all [] s = s"
| "perform_all (c # cs) s = perform_all cs (perform c s)"


text \<open>
  The position object that \<^verbatim>\<open>openPosition\<close> creates, and the runtime after a visit of
  \<^verbatim>\<open>getPositions\<close> has re-marked the object at reference \<open>r\<close> to the price \<open>c\<close>.
\<close>

definition new_position ::
  "string \<Rightarrow> PositionType \<Rightarrow> real \<Rightarrow> jsnum \<Rightarrow> jsnum \<Rightarrow> MT5Bridge \<Rightarrow> Runtime \<Rightarrow> MT5Position" where
  "new_position symb ty vol sl tp b w =
     \<lparr>ticket = clock w (asked w + 1), symbol = symb, type = ty, volume = vol,
      openPrice = next_price b w, currentPrice = next_price b w, profit = 0,
      stopLoss = sl, takeProfit = tp, openTime = clock w (asked w + 2)\<rparr>"

definition marked :: "ref \<Rightarrow> real \<Rightarrow> Runtime \<Rightarrow> Runtime" where
  "marked r c w = (drew w)\<lparr>heap := (heap w)[r := mark (heap w ! r) c]\<rparr>"

text \<open>Example inputs: valid credentials, and a runtime whose random numbers are
  \<open>1/2\<close> for the first \<open>k\<close> draws and \<open>r\<close> from then on.\<close>

definition demo_config :: MT5Config where
  "demo_config = \<lparr>accountNumber = ''demo'', password = ''demo'', server = ''demo'',
                  symbol = ''EURUSD''\<rparr>"

definition calm_until :: "nat \<Rightarrow> real \<Rightarrow> Runtime" where
  "calm_until k r =
     \<lparr>randoms = (\<lambda>n. if n < k then 1 / 2 else r), drawn = 0,
      clock = (\<lambda>n. 1000 + int n), asked = 0, heap = []\<rparr>"

text \<open>A candle as the walk produces it when every random number is \<open>1/2\<close>: the
  price does not move and the range is a fixed fraction of it.\<close>

definition calm :: "real \<Rightarrow> MarketData \<Rightarrow> bool" where
  "calm P c = (close c = P \<and> high c = P * (1 + 1 / 2 * 0.0005) \<and> low c = P * (1 - 1 / 2 * 0.0005))"

text \<open>The bridge right after a successful \<^verbatim>\<open>connect\<close> of a new bridge with the example
  credentials, for a history \<open>h\<close>; and two example sessions.\<close>

definition connected_demo :: "MarketData list \<Rightarrow> MT5Bridge" where
  "connected_demo h =
     new_MT5Bridge\<lparr>config := Some demo_config, connected := True,
                   marketDataHistory := (\<lambda>s. None)(''EURUSD'' \<mapsto> h)\<rparr>"

definition after_connect :: Runtime where
  "after_connect = (calm_until 505 (3 / 4))\<lparr>drawn := 505, asked := 1\<rparr>"

definition one_position_session :: "MT5Bridge \<times> Runtime" where
  "one_position_session =
     perform_all [Connect demo_config, OpenPosition ''EURUSD'' PBUY 1 (Some 0) (Some 10)]
       (new_MT5Bridge, calm_until 505 (3 / 4))"

definition two_positions_session :: "MT5Bridge \<times> Runtime" where
  "two_positions_session =
     perform_all [Connect demo_config, OpenPosition ''EURUSD'' PBUY 1 (Some 0) (Some 10),
                  OpenPosition ''EURUSD'' PSELL 1 (Some 10) (Some 0)]
       (new_MT5Bridge, calm_until 505 (3 / 4))"

text \<open>
  The bridge after a visit of \<^verbatim>\<open>getPositions\<close> has found the position at index \<open>i\<close>
  crossed and closed it: the re-marked profit is credited to the balance, the
  position leaves the array, the account is recomputed.
\<close>

definition settled :: "nat \<Rightarrow> MarketData list \<Rightarrow> MT5Bridge \<Rightarrow> Runtime \<Rightarrow> MT5Bridge" where
  "settled i h b w =
     (let r = positions b ! i;
          p = mark (heap w ! r) (next_price b w);
          a = accountInfo b
      in updateAccountInfo
           ((ticked (symbol p) h b w)
              \<lparr>accountInfo := a\<lparr>balance := balance a + MT5Position.profit p,
                                 profit := profit a - MT5Position.profit p\<rparr>,
               positions := take i (positions b) @ drop (Suc i) (positions b)\<rparr>)
           (marked r (next_price b w) w))"


text \<open>
  The bridge after \<^verbatim>\<open>closePosition\<close> has removed the position at index \<open>k\<close> of the array:
  the profit of that position is credited to the balance and the account is
  recomputed.
\<close>

definition closed_at :: "nat \<Rightarrow> MT5Bridge \<Rightarrow> Runtime \<Rightarrow> MT5Bridge" where
  "closed_at k b w =
     (let p = heap w ! (positions b ! k);
          a = accountInfo b
      in updateAccountInfo
           (b\<lparr>accountInfo := a\<lparr>balance := balance a + MT5Position.profit p,
                                MT5AccountInfo.profit := MT5AccountInfo.profit a - MT5Position.profit p\<rparr>,
              positions := take k (positions b) @ drop (Suc k) (positions b)\<rparr>)
           w)"

text \<open>
  A call of \<^verbatim>\<open>getPositions\<close> does not throw when the positions it visits are objects
  of the heap whose symbols have a non-empty history (\<open>ready\<close>). In a \<open>live\<close> bridge
  this holds of every open position, and the array holds each object once.
\<close>

definition has_history :: "MT5Bridge \<Rightarrow> string \<Rightarrow> bool" where
  "has_history b s = (case marketDataHistory b s of None \<Rightarrow> False | Some h \<Rightarrow> h \<noteq> [])"

definition ready :: "ref list \<Rightarrow> MT5Bridge \<Rightarrow> Runtime \<Rightarrow> bool" where
  "ready rs b w = (connected b
     \<and> list_all (\<lambda>r. r < length (heap w) \<and> has_history b (MT5Position.symbol (heap w ! r))) rs)"

definition live :: "MT5Bridge \<Rightarrow> Runtime \<Rightarrow> bool" where
  "live b w = (distinct (positions b) \<and> ready (positions b) b w)"

text \<open>
  The bridge and the runtime after a visit of \<^verbatim>\<open>getPositions\<close> to the position \<open>r\<close> that
  does not close it (one new candle for its symbol, the position re-marked to its
  close), and after such visits to the positions \<open>rs\<close> in turn; \<open>kept rs s\<close> says that
  none of these visits finds its position crossed.
\<close>

definition remarked :: "ref \<Rightarrow> MT5Bridge \<times> Runtime \<Rightarrow> MT5Bridge \<times> Runtime" where
  "remarked r s =
     (case marketDataHistory (fst s) (MT5Position.symbol (heap (snd s) ! r)) of
        None \<Rightarrow> s
      | Some h \<Rightarrow> (ticked (MT5Position.symbol (heap (snd s) ! r)) h (fst s) (snd s),
                   marked r (next_price (fst s) (snd s)) (snd s)))"

fun remarked_all :: "ref list \<Rightarrow> MT5Bridge \<times> Runtime \<Rightarrow> MT5Bridge \<times> Runtime" where
  "remarked_all [] s = s"
| "remarked_all (r # rs) s = remarked_all rs (remarked r s)"

fun kept :: "ref list \<Rightarrow> MT5Bridge \<times> Runtime \<Rightarrow> bool" where
  "kept [] s = True"
| "kept (r # rs) s =
     (\<not> crossed (mark (heap (snd s) ! r) (next_price (fst s) (snd s))) (next_price (fst s) (snd s))
      \<and> kept rs (remarked r s))"

text \<open>The profit of a position agrees with its current price.\<close>

definition marked_right :: "MT5Position \<Rightarrow> bool" where
  "marked_right p =
     (MT5Position.profit p
        = (if type p = PBUY then currentPrice p - openPrice p else openPrice p - currentPrice p)
          * MT5Position.volume p * 100000)"

text \<open>
  A third example session: a BUY with its stop and a SELL with its target at 1.0945,
  opened at 1.0950; the random numbers are \<open>1/2\<close> until both are open and 0 afterwards.
\<close>

definition skipping_session :: "MT5Bridge \<times> Runtime" where
  "skipping_session =
     perform_all [Connect demo_config, OpenPosition ''EURUSD'' PBUY 1 (Some 1.0945) (Some 2),
                  OpenPosition ''EURUSD'' PSELL 1 (Some 2) (Some 1.0945)]
       (new_MT5Bridge, calm_until 513 0)"
section \<open>tradingBot.ts\<close>

record BotConfig =
  symbol :: string
  maxPositions :: real
  riskPerTrade :: real
  minConfidence :: real
  analysisInterval :: real

datatype TradeAction = TBUY | TSELL | CLOSE

record TradeHistory =
  id :: int
  timestamp :: int
  symbol :: string
  action :: TradeAction
  price :: real
  volume :: real
  profit :: "real option"
  reasoning :: string

datatype BotStatus = Idle | Connected | Running | Paused | Errored

text \<open>
  The bot. A callback is modelled by whether one is registered and by the list of
  the values it has been called with. \<open>updatesRequested\<close> lists the arguments of the
  calls of \<^verbatim>\<open>aiEngine.learnFromTrade\<close>, in order. The interval timer is not part of
  the state: a tick is a call of \<open>analyze\<close>.
\<close>

record 'w TradingBot =
  aiEngine :: "'w AITradingEngine"
  mt5 :: MT5Bridge
  config :: BotConfig
  status :: BotStatus
  tradeHistory :: "TradeHistory list"
  onStatusChange :: bool
  onTradeExecuted :: bool
  onAnalysisComplete :: bool
  statusNotified :: "BotStatus list"
  tradesNotified :: "TradeHistory list"
  signalsNotified :: "TradeSignal list"
  updatesRequested :: "(MarketData list \<times> Action \<times> real) list"

definition new_TradingBot :: "BotConfig \<Rightarrow> 'w \<Rightarrow> 'w TradingBot" where
  "new_TradingBot cfg w0 =
     \<lparr>aiEngine = \<lparr>model = Some w0, isTraining = False\<rparr>, mt5 = new_MT5Bridge, config = cfg,
      status = Idle, tradeHistory = [], onStatusChange = False, onTradeExecuted = False,
      onAnalysisComplete = False, statusNotified = [], tradesNotified = [],
      signalsNotified = [], updatesRequested = []\<rparr>"

definition notifyStatusChange :: "'w TradingBot \<Rightarrow> 'w TradingBot" where
  "notifyStatusChange tbot =
     (if onStatusChange tbot then tbot\<lparr>statusNotified := statusNotified tbot @ [status tbot]\<rparr> else tbot)"

definition record_trade :: "TradeHistory \<Rightarrow> 'w TradingBot \<Rightarrow> 'w TradingBot" where
  "record_trade trade tbot =
     (let bot1 = tbot\<lparr>tradeHistory := tradeHistory tbot @ [trade]\<rparr>
      in if onTradeExecuted bot1 then bot1\<lparr>tradesNotified := tradesNotified bot1 @ [trade]\<rparr>
         else bot1)"

definition connect_bot :: "MT5Config \<Rightarrow> 'w TradingBot \<Rightarrow> Runtime \<Rightarrow> (Failure + unit) \<times> 'w TradingBot \<times> Runtime" where
  "connect_bot mt5Config tbot w =
     (case connect mt5Config (mt5 tbot) w of
        (Inl e, b1, w1) \<Rightarrow> (Inl e, notifyStatusChange (tbot\<lparr>mt5 := b1, status := Errored\<rparr>), w1)
      | (Inr ok, b1, w1) \<Rightarrow> (Inr (), notifyStatusChange (tbot\<lparr>mt5 := b1, status := Connected\<rparr>), w1))"

definition type_action :: "PositionType \<Rightarrow> Action" where
  "type_action ty = (case ty of PBUY \<Rightarrow> BUY | PSELL \<Rightarrow> SELL)"

definition executeTrade ::
  "TradeSignal \<Rightarrow> MarketData list \<Rightarrow> 'w TradingBot \<Rightarrow> Runtime \<Rightarrow> 'w TradingBot \<times> Runtime" where
  "executeTrade sig marketData tbot w =
     (case getPositions (mt5 tbot) w of
        (Inl e, b1, w1) \<Rightarrow> (tbot\<lparr>mt5 := b1\<rparr>, w1)
      | (Inr ps, b1, w1) \<Rightarrow>
          (let bot1 = tbot\<lparr>mt5 := b1\<rparr>;
               cfg = config tbot
           in if real (length ps) \<ge> maxPositions cfg then (bot1, w1)
              else if TradeSignal.action sig = HOLD then (bot1, w1)
              else if list_ex (\<lambda>r. MT5Position.symbol (heap w1 ! r) = BotConfig.symbol cfg
                                   \<and> type_action (type (heap w1 ! r)) = TradeSignal.action sig) ps
              then (bot1, w1)
              else (case openPosition (BotConfig.symbol cfg)
                           (if TradeSignal.action sig = BUY then PBUY else PSELL)
                           (lotSize sig) (TradeSignal.stopLoss sig) (TradeSignal.takeProfit sig) b1 w1 of
                      (Inl e, b2, w2) \<Rightarrow> (bot1\<lparr>mt5 := b2\<rparr>, w2)
                    | (Inr r, b2, w2) \<Rightarrow>
                        (case Date_now w2 of (now, w3) \<Rightarrow>
                           (let trade = \<lparr>id = ticket (heap w3 ! r), timestamp = now,
                                         symbol = BotConfig.symbol cfg,
                                         action = (if TradeSignal.action sig = BUY then TBUY else TSELL),
                                         price = openPrice (heap w3 ! r), volume = lotSize sig,
                                         profit = None, reasoning = TradeSignal.reasoning sig\<rparr>
                            in (record_trade trade (bot1\<lparr>mt5 := b2\<rparr>), w3))))))"

text \<open>
  The loop of \<^verbatim>\<open>managePositions\<close> over the array returned by its first query. The
  array is a copy, so it does not change; the objects in it are the bridge's own, so
  their fields are read from the heap as it is at that moment.
\<close>

fun manage_loop ::
  "'w TF \<Rightarrow> MarketData list \<Rightarrow> ref list \<Rightarrow> 'w TradingBot \<Rightarrow> Runtime \<Rightarrow> 'w TradingBot \<times> Runtime" where
  "manage_loop tf marketData [] tbot w = (tbot, w)"
| "manage_loop tf marketData (r # rest) tbot w =
     (case getPositions (mt5 tbot) w of
        (Inl e, b1, w1) \<Rightarrow> (tbot\<lparr>mt5 := b1\<rparr>, w1)
      | (Inr currentPositions, b1, w1) \<Rightarrow>
          (let bot1 = tbot\<lparr>mt5 := b1\<rparr>;
               position = heap w1 ! r;
               stillExists = list_ex (\<lambda>q. ticket (heap w1 ! q) = ticket position) currentPositions
           in if \<not> stillExists
              then (case Date_now w1 of (now, w2) \<Rightarrow>
                      (let pr = MT5Position.profit position;
                           closeTrade =
                             \<lparr>id = ticket position, timestamp = now,
                              symbol = MT5Position.symbol position, action = CLOSE,
                              price = currentPrice position, volume = MT5Position.volume position,
                              profit = Some pr,
                              reasoning = ''Position closed: ''
                                          @ (if pr > 0 then ''Profit'' else ''Loss'')
                                          @ '' of $'' @ toFixed 2 pr\<rparr>;
                           bot2 = record_trade closeTrade bot1;
                           bot3 = bot2\<lparr>aiEngine := learnFromTrade tf (aiEngine bot2) marketData
                                                       (type_action (type position)) pr,
                                       updatesRequested := updatesRequested bot2
                                          @ [(marketData, type_action (type position), pr)]\<rparr>
                       in manage_loop tf marketData rest bot3 w2))
              else manage_loop tf marketData rest bot1 w1))"

definition managePositions ::
  "'w TF \<Rightarrow> MarketData list \<Rightarrow> 'w TradingBot \<Rightarrow> Runtime \<Rightarrow> 'w TradingBot \<times> Runtime" where
  "managePositions tf marketData tbot w =
     (case getPositions (mt5 tbot) w of
        (Inl e, b1, w1) \<Rightarrow> (tbot\<lparr>mt5 := b1\<rparr>, w1)
      | (Inr ps, b1, w1) \<Rightarrow> manage_loop tf marketData ps (tbot\<lparr>mt5 := b1\<rparr>) w1)"

text \<open>One tick of the orchestrator.\<close>

definition analyze :: "'w TF \<Rightarrow> 'w TradingBot \<Rightarrow> Runtime \<Rightarrow> 'w TradingBot \<times> Runtime" where
  "analyze tf tbot w =
     (if status tbot \<noteq> Running then (tbot, w)
      else (case getMarketData (BotConfig.symbol (config tbot)) 100 (mt5 tbot) w of
              (Inl e, b1, w1) \<Rightarrow> (tbot\<lparr>mt5 := b1\<rparr>, w1)
            | (Inr marketData, b1, w1) \<Rightarrow>
                (let bot1 = tbot\<lparr>mt5 := b1\<rparr>;
                     sig = analyzeMarket tf (aiEngine bot1) marketData;
                     bot2 = (if onAnalysisComplete bot1
                             then bot1\<lparr>signalsNotified := signalsNotified bot1 @ [sig]\<rparr>
                             else bot1)
                 in case (if confidence sig \<ge> minConfidence (config bot2)
                          then executeTrade sig marketData bot2 w1
                          else (bot2, w1)) of
                      (bot3, w3) \<Rightarrow> managePositions tf marketData bot3 w3)))"

text \<open>
  \<^verbatim>\<open>start\<close>: fails when the bridge is not connected, does nothing when already
  running, and otherwise runs the first tick at once.
\<close>

definition start :: "'w TF \<Rightarrow> 'w TradingBot \<Rightarrow> Runtime \<Rightarrow> (Failure + unit) \<times> 'w TradingBot \<times> Runtime" where
  "start tf tbot w =
     (if \<not> isConnected (mt5 tbot) then (Inl NotConnected, tbot, w)
      else if status tbot = Running then (Inr (), tbot, w)
      else (case analyze tf (notifyStatusChange (tbot\<lparr>status := Running\<rparr>)) w of
              (bot1, w1) \<Rightarrow> (Inr (), bot1, w1)))"

section \<open>tradingBot.ts: an example session\<close>

text \<open>
  A bot configuration; a network that predicts BUY with probability 1 while the
  last close of the window is at least 1.0950 and (0.4, 0.3, 0.3) below it, and
  counts its training steps in its parameter; a runtime whose random numbers are
  \<open>1/2\<close> for 521 draws (through the connection and the first tick) and 0 afterwards
  (the price falls); and the bot and the runtime after \<^verbatim>\<open>connect\<close> and \<^verbatim>\<open>start\<close>.
\<close>

definition demo_bot_config :: BotConfig where
  "demo_bot_config =
     \<lparr>BotConfig.symbol = ''EURUSD'', maxPositions = 3, riskPerTrade = 0.02, minConfidence = 50,
      analysisInterval = 5000\<rparr>"

definition trend_tf :: "nat TF" where
  "trend_tf =
     \<lparr>predict = (\<lambda>w window. if 1.0950 \<le> close (last window) then Some (1, 0, 0)
                              else Some (2 / 5, 3 / 10, 3 / 10)),
      fit = (\<lambda>w window target. Some (Suc w))\<rparr>"

definition running_session :: "nat TradingBot \<times> Runtime" where
  "running_session =
     (case connect_bot demo_config (new_TradingBot demo_bot_config 0) (calm_until 521 0) of
        (r1, bot1, w1) \<Rightarrow> (case start trend_tf bot1 w1 of (r2, bot2, w2) \<Rightarrow> (bot2, w2)))"

section \<open>aiEngine.ts: properties\<close>

































lemma foldl_add_sum: "foldl (+) a xs = a + sum_list (xs :: real list)"
  by (induction xs arbitrary: a) auto



lemma length_trueRanges: "length (trueRanges md) = length md - 1"
  by (induction md rule: trueRanges.induct) auto

lemma trueRanges_replicate: "trueRanges (replicate (Suc n) c) = replicate n (trueRange c c)"
  by (induction n) auto


lemma calculateATR_value:
  assumes "15 \<le> length md"
  shows "calculateATR md 14 = Some (sum_list (slice_last 14 (trueRanges md)) / 14)"
proof -
  have "length (slice_last 14 (trueRanges md)) = 14"
    using assms by (simp add: slice_last_def length_trueRanges)
  then show ?thesis using assms
    by (simp add: calculateATR_def calculateSMA_def foldl_add_sum slice_last_def)
qed


lemma analyzeMarket_main:
  assumes "model e = Some w" "50 \<le> length md" "predict tf w md = Some (b, s, h)" "calculateATR md 14 = Some atr"
  shows "analyzeMarket tf e md =
     \<lparr>TradeSignal.action = choose_action b s h,
      confidence = max b (max s h) * 100,
      TradeSignal.stopLoss = (if choose_action b s h = BUY then Some (close (last md) - atr * 2) else Some (close (last md) + atr * 2)),
      TradeSignal.takeProfit = (if choose_action b s h = BUY then Some (close (last md) + atr * 3) else Some (close (last md) - atr * 3)),
      lotSize = min (0.1 * max b (max s h)) 0.05,
      TradeSignal.reasoning = generateReasoning (choose_action b s h) (max b (max s h)) (calculateRSI (map close md) 14)
                    (calculateMACD (map close md)) (map close md)\<rparr>"
  using assms by (simp add: analyzeMarket_def Let_def jmul_def jadd_def jsub_def)



lemma calculateATR_replicate: "calculateATR (replicate 50 c) 14 = Some (trueRange c c)"
proof -
  have "replicate 50 c = replicate (Suc 49) c" by simp
  then have "trueRanges (replicate 50 c) = replicate 49 (trueRange c c)"
    by (simp only: trueRanges_replicate)
  then show ?thesis
    by (simp add: calculateATR_value slice_last_def sum_list_replicate)
qed

lemma last_replicate_50: "last (replicate 50 c) = c"
  by simp

lemma analyzeMarket_replicate:
  "analyzeMarket (counting_tf (b, s, h)) fresh_engine (replicate 50 c) =
     \<lparr>TradeSignal.action = choose_action b s h,
      confidence = max b (max s h) * 100,
      TradeSignal.stopLoss = (if choose_action b s h = BUY then Some (close c - trueRange c c * 2) else Some (close c + trueRange c c * 2)),
      TradeSignal.takeProfit = (if choose_action b s h = BUY then Some (close c + trueRange c c * 3) else Some (close c - trueRange c c * 3)),
      lotSize = min (0.1 * max b (max s h)) 0.05,
      TradeSignal.reasoning = generateReasoning (choose_action b s h) (max b (max s h)) (calculateRSI (map close (replicate 50 c)) 14)
                    (calculateMACD (map close (replicate 50 c))) (map close (replicate 50 c))\<rparr>"
proof -
  have 1: "model fresh_engine = Some 0" by (simp add: fresh_engine_def)
  have 2: "50 \<le> length (replicate 50 c)" by simp
  have 3: "predict (counting_tf (b, s, h)) 0 (replicate 50 c) = Some (b, s, h)" by (simp add: counting_tf_def)
  show ?thesis unfolding analyzeMarket_main[OF 1 2 3 calculateATR_replicate] last_replicate_50 ..
qed



text \<open>
  Claim C2. The claim is that a HOLD signal has stopLoss, takeProfit and lotSize 0.
  The two early returns of \<^verbatim>\<open>analyzeMarket\<close> do that; its main path does not. Here the
  network gives HOLD the largest probability on a window of fifty candles: the
  signal is HOLD with the stop and the target of a SELL and a lot size of 0.05.
\<close>

theorem analyzeMarket_hold_nonzero:
  "TradeSignal.action (analyzeMarket (counting_tf (1/5, 3/10, 1/2)) fresh_engine (replicate 50 wide_candle)) = HOLD
   \<and> TradeSignal.stopLoss (analyzeMarket (counting_tf (1/5, 3/10, 1/2)) fresh_engine (replicate 50 wide_candle)) = Some 3
   \<and> TradeSignal.takeProfit (analyzeMarket (counting_tf (1/5, 3/10, 1/2)) fresh_engine (replicate 50 wide_candle)) = Some (- 2)
   \<and> lotSize (analyzeMarket (counting_tf (1/5, 3/10, 1/2)) fresh_engine (replicate 50 wide_candle)) = 1 / 20"
  unfolding analyzeMarket_replicate
  by (simp add: choose_action_def trueRange_def wide_candle_def)


text \<open>On a loss with realized action HOLD the target reinforces HOLD.\<close>

theorem label_hold_loss_counterexample: "label HOLD (- 1) = [0, 0, 1]"
  by (simp add: label_def)

text \<open>
  Claim C6, as amended. When the model exists and no update is in flight,
  \<^verbatim>\<open>learnFromTrade\<close> calls \<^verbatim>\<open>fit\<close> exactly once, on the window and the one-hot target,
  and the parameters it returns (unless it throws, which is swallowed) replace the
  model's; the flag is down again afterwards. The target is the realized action when
  profitLoss \<open>> 0\<close>; otherwise it is SELL for a realized BUY and BUY for a realized
  SELL; for a realized HOLD it is HOLD in both cases.
\<close>

theorem learnFromTrade_one_step:
  assumes "model e = Some w" "\<not> isTraining e"
  shows "learnFromTrade tf e md a pl =
           (case fit tf w md (label a pl) of None \<Rightarrow> e | Some w' \<Rightarrow> e\<lparr>model := Some w'\<rparr>)
         \<and> label a pl =
           (if a = HOLD then [0, 0, 1]
            else if pl > 0 then (if a = BUY then [1, 0, 0] else [0, 1, 0])
            else (if a = BUY then [0, 1, 0] else [1, 0, 0]))"
  using assms
  by (cases a) (auto simp: learnFromTrade_def learn_begin_def learn_end_def label_def split: option.splits)

theorem learnFromTrade_one_step_witness:
  "model fresh_engine = Some 0 \<and> \<not> isTraining fresh_engine
   \<and> learnFromTrade (counting_tf (1, 0, 0)) fresh_engine [] BUY (- 5) = \<lparr>model = Some 1, isTraining = False\<rparr>
   \<and> label BUY (- 5) = [0, 1, 0]"
  using learnFromTrade_one_step[of fresh_engine 0 "counting_tf (1, 0, 0)" "[]" BUY "- 5"]
  by (simp add: fresh_engine_def counting_tf_def)

text \<open>
  Claim C7. A call of \<^verbatim>\<open>learnFromTrade\<close> that finds the in-flight flag set returns at
  once, leaving the engine (parameters and flag) as it is: nothing is queued and no
  error is raised. So when a first update has started (its part before the await has
  run, leaving the flag up and its example pending) and a second call is made before
  it completes, completing the first gives exactly the engine of the first update
  alone.
\<close>

theorem learnFromTrade_in_flight:
  "(isTraining e \<longrightarrow> learn_begin e md a pl = (e, None) \<and> learnFromTrade tf e md a pl = e)
   \<and> (learn_begin e0 md1 a1 pl1 = (e1, Some p1) \<longrightarrow>
        isTraining e1
        \<and> learnFromTrade tf e1 md a pl = e1
        \<and> learn_end tf (learnFromTrade tf e1 md a pl) (Some p1) = learnFromTrade tf e0 md1 a1 pl1)"
proof -
  have dropped: "learn_begin x md a pl = (x, None) \<and> learnFromTrade tf x md a pl = x"
    if "isTraining x" for x
    using that by (simp add: learnFromTrade_def learn_begin_def learn_end_def)
  have started: "isTraining e1 \<and> learnFromTrade tf e0 md1 a1 pl1 = learn_end tf e1 (Some p1)"
    if "learn_begin e0 md1 a1 pl1 = (e1, Some p1)"
    using that by (auto simp: learnFromTrade_def learn_begin_def split: if_splits)
  show ?thesis using dropped[of e] dropped[of e1] started by auto
qed

theorem learnFromTrade_in_flight_witness:
  "isTraining (fresh_engine\<lparr>isTraining := True\<rparr>)
   \<and> learn_begin fresh_engine [] BUY 1 = (fresh_engine\<lparr>isTraining := True\<rparr>, Some ([], [1, 0, 0]))
   \<and> learnFromTrade (counting_tf (1, 0, 0)) (fresh_engine\<lparr>isTraining := True\<rparr>) [] SELL 2
       = fresh_engine\<lparr>isTraining := True\<rparr>
   \<and> learn_end (counting_tf (1, 0, 0))
        (learnFromTrade (counting_tf (1, 0, 0)) (fresh_engine\<lparr>isTraining := True\<rparr>) [] SELL 2)
        (Some ([], [1, 0, 0]))
       = learnFromTrade (counting_tf (1, 0, 0)) fresh_engine [] BUY 1"
proof -
  have b: "learn_begin fresh_engine [] BUY 1 = (fresh_engine\<lparr>isTraining := True\<rparr>, Some ([], [1, 0, 0]))"
    by (simp add: learn_begin_def fresh_engine_def label_def)
  have t: "isTraining (fresh_engine\<lparr>isTraining := True\<rparr>)" by simp
  note th = learnFromTrade_in_flight[of "fresh_engine\<lparr>isTraining := True\<rparr>" "[]" SELL 2
      "counting_tf (1, 0, 0)" fresh_engine "[]" BUY 1 "fresh_engine\<lparr>isTraining := True\<rparr>"
      "([], [1, 0, 0])"]
  from th t have 1: "learnFromTrade (counting_tf (1, 0, 0)) (fresh_engine\<lparr>isTraining := True\<rparr>) [] SELL 2
       = fresh_engine\<lparr>isTraining := True\<rparr>" by blast
  from th b have 2: "learn_end (counting_tf (1, 0, 0))
        (learnFromTrade (counting_tf (1, 0, 0)) (fresh_engine\<lparr>isTraining := True\<rparr>) [] SELL 2)
        (Some ([], [1, 0, 0]))
       = learnFromTrade (counting_tf (1, 0, 0)) fresh_engine [] BUY 1" by blast
  show ?thesis by (intro conjI) (rule t b 1 2)+
qed

section \<open>mt5Bridge.ts: properties\<close>

lemma foldl_plus_map: "foldl (\<lambda>s p. s + f p) a ps = (a::real) + sum_list (map f ps)"
  by (induction ps arbitrary: a) auto

lemma updateAccountInfo_consistent: "account_consistent (updateAccountInfo b w) w"
  by (simp add: account_consistent_def updateAccountInfo_def Let_def foldl_plus_map)

lemma updateAccountInfo_fields [simp]:
  "positions (updateAccountInfo b w) = positions b"
  "connected (updateAccountInfo b w) = connected b"
  "MT5Bridge.config (updateAccountInfo b w) = MT5Bridge.config b"
  "marketDataHistory (updateAccountInfo b w) = marketDataHistory b"
  "simulatedPrice (updateAccountInfo b w) = simulatedPrice b"
  "balance (accountInfo (updateAccountInfo b w)) = balance (accountInfo b)"
  "leverage (accountInfo (updateAccountInfo b w)) = leverage (accountInfo b)"
  by (simp_all add: updateAccountInfo_def Let_def)

lemma push_candle_props:
  "h \<noteq> [] \<Longrightarrow> push_candle h c \<noteq> []"
  "last (push_candle h c) = c"
  "h \<noteq> [] \<Longrightarrow> slice_last 1 (push_candle h c) = [c]"
  "length h < 200 \<Longrightarrow> push_candle h c = h @ [c]"
proof -
  show "h \<noteq> [] \<Longrightarrow> push_candle h c \<noteq> []"
    by (cases h) (auto simp: push_candle_def)
  show "last (push_candle h c) = c"
    by (cases h) (auto simp: push_candle_def)
  show "h \<noteq> [] \<Longrightarrow> slice_last 1 (push_candle h c) = [c]"
    by (cases h) (auto simp: push_candle_def slice_last_def)
  show "length h < 200 \<Longrightarrow> push_candle h c = h @ [c]"
    by (simp add: push_candle_def)
qed

lemma updateMarketData_tick:
  assumes "marketDataHistory b symb = Some h" "h \<noteq> []"
  shows "updateMarketData symb b w = (Inr (), ticked symb h b w, drew w)"
proof -
  have l: "from_end h (Suc 0) = Some (last h)"
    using assms(2) by (cases h rule: rev_cases) (auto simp: from_end_def)
  have n: "drawn w + 3 = Suc (Suc (Suc (drawn w)))" "drawn w + 4 = Suc (Suc (Suc (Suc (drawn w))))"
    by simp_all
  show ?thesis
    by (simp add: updateMarketData_def assms(1) l Math_random_def Date_now_def Let_def
        ticked_def drew_def next_price_def next_candle_def push_candle_def n)
qed

lemma updateMarketData_none:
  "marketDataHistory b symb = None \<Longrightarrow> updateMarketData symb b w = (Inr (), b, w)"
  by (simp add: updateMarketData_def)

lemma getMarketData_tick:
  assumes "connected b" "marketDataHistory b symb = Some h" "h \<noteq> []"
  shows "getMarketData symb bars b w =
           (Inr (slice_last bars (push_candle h (next_candle (last h) b w))), ticked symb h b w, drew w)"
  by (simp add: getMarketData_def assms updateMarketData_tick ticked_def)

lemma ticked_fields [simp]:
  "positions (ticked symb h b w) = positions b"
  "connected (ticked symb h b w) = connected b"
  "MT5Bridge.config (ticked symb h b w) = MT5Bridge.config b"
  "accountInfo (ticked symb h b w) = accountInfo b"
  "simulatedPrice (ticked symb h b w) = next_price b w"
  "marketDataHistory (ticked symb h b w) symb = Some (push_candle h (next_candle (last h) b w))"
  "s \<noteq> symb \<Longrightarrow> marketDataHistory (ticked symb h b w) s = marketDataHistory b s"
  by (simp_all add: ticked_def)

lemma drew_fields [simp]:
  "heap (drew w) = heap w"
  "randoms (drew w) = randoms w"
  "clock (drew w) = clock w"
  "drawn (drew w) = drawn w + 4"
  "asked (drew w) = Suc (asked w)"
  by (simp_all add: drew_def)

lemma openPosition_tick:
  assumes "connected b" "marketDataHistory b symb = Some h" "h \<noteq> []"
  shows "openPosition symb ty vol sl tp b w =
     (Inr (length (heap w)),
      updateAccountInfo ((ticked symb h b w)\<lparr>positions := positions b @ [length (heap w)]\<rparr>)
        ((drew w)\<lparr>asked := asked w + 3, heap := heap w @ [new_position symb ty vol sl tp b w]\<rparr>),
      (drew w)\<lparr>asked := asked w + 3, heap := heap w @ [new_position symb ty vol sl tp b w]\<rparr>)"
proof -
  have s: "slice_last 1 (push_candle h (next_candle (last h) b w)) = [next_candle (last h) b w]"
    using assms(3) by (rule push_candle_props(3))
  have c: "close (next_candle (last h) b w) = next_price b w" by (simp add: next_candle_def)
  have n: "asked w + 3 = Suc (Suc (Suc (asked w)))" by simp
  show ?thesis
    unfolding openPosition_def getMarketData_tick[OF assms] s
    by (simp add: assms(1) Date_now_def Let_def c new_position_def n)
qed

lemma findIndex_None: "findIndex P xs = None \<longleftrightarrow> (\<forall>x \<in> set xs. \<not> P x)"
  by (induction xs) (auto split: option.splits)

lemma findIndex_Some:
  "findIndex P xs = Some i \<Longrightarrow> i < length xs \<and> P (xs ! i) \<and> (\<forall>j < i. \<not> P (xs ! j))"
proof (induction xs arbitrary: i)
  case Nil
  then show ?case by simp
next
  case (Cons x xs)
  show ?case
  proof (cases "P x")
    case True
    with Cons.prems show ?thesis by simp
  next
    case False
    with Cons.prems obtain k where k: "findIndex P xs = Some k" "i = Suc k"
      by (auto split: option.splits)
    from Cons.IH[OF k(1)] False k(2) show ?thesis by (auto simp: less_Suc_eq_0_disj)
  qed
qed

lemma findIndex_first:
  assumes "i < length xs" "P (xs ! i)" "\<forall>j < i. \<not> P (xs ! j)"
  shows "findIndex P xs = Some i"
proof (cases "findIndex P xs")
  case None
  with assms show ?thesis by (auto simp: findIndex_None)
next
  case (Some k)
  from findIndex_Some[OF Some] assms have "k = i" by (meson linorder_neqE_nat)
  with Some show ?thesis by simp
qed

lemma closePosition_absent:
  assumes "t \<notin> set (map (\<lambda>r. ticket (heap w ! r)) (positions b))"
  shows "closePosition t b w = (Inl (if connected b then PositionNotFound else NotConnected), b, w)"
proof -
  have "findIndex (\<lambda>r. ticket (heap w ! r) = t) (positions b) = None"
    using assms by (auto simp: findIndex_None)
  then show ?thesis by (simp add: closePosition_def)
qed

















lemma candle_loop_calm:
  assumes "\<forall>k < 5 * n. randoms w (drawn w + k) = 1 / 2"
  shows "\<exists>h'. candle_loop n now p0 h w = (h @ h', w\<lparr>drawn := drawn w + 5 * n\<rparr>)
              \<and> length h' = n \<and> (\<forall>c \<in> set h'. calm p0 c)"
  using assms
proof (induction n arbitrary: h w)
  case 0
  then show ?case by simp
next
  case (Suc n)
  have e: "drawn w = drawn w + 0" "Suc (drawn w) = drawn w + 1" "Suc (Suc (drawn w)) = drawn w + 2"
    "Suc (Suc (Suc (drawn w))) = drawn w + 3" "Suc (Suc (Suc (Suc (drawn w)))) = drawn w + 4"
    by simp_all
  have r0: "randoms w (drawn w) = 1 / 2" by (subst e(1), rule Suc.prems[rule_format]) simp
  have r1: "randoms w (Suc (drawn w)) = 1 / 2" by (subst e(2), rule Suc.prems[rule_format]) simp
  have r2: "randoms w (Suc (Suc (drawn w))) = 1 / 2" by (subst e(3), rule Suc.prems[rule_format]) simp
  have r3: "randoms w (Suc (Suc (Suc (drawn w)))) = 1 / 2"
    by (subst e(4), rule Suc.prems[rule_format]) simp
  have r4: "randoms w (Suc (Suc (Suc (Suc (drawn w))))) = 1 / 2"
    by (subst e(5), rule Suc.prems[rule_format]) simp
  note r = r0 r1 r2 r3 r4
  let ?c = "\<lparr>MarketData.timestamp = now - int n * 60000, open = p0, high = p0 * (1 + 1 / 2 * 0.0005),
             low = p0 * (1 - 1 / 2 * 0.0005), close = p0, MarketData.volume = 1 / 2 * 1000 + 500\<rparr>"
  let ?w5 = "w\<lparr>drawn := Suc (Suc (Suc (Suc (Suc (drawn w)))))\<rparr>"
  have step: "candle_loop (Suc n) now p0 h w = candle_loop n now p0 (h @ [?c]) ?w5"
    by (simp add: Math_random_def Let_def r)
  have "\<forall>k < 5 * n. randoms ?w5 (drawn ?w5 + k) = 1 / 2"
  proof (intro allI impI)
    fix k assume "k < 5 * n"
    then have "k + 5 < 5 * Suc n" by simp
    note lt = this
    have eq: "drawn ?w5 + k = drawn w + (k + 5)" by simp
    have "randoms ?w5 (drawn ?w5 + k) = randoms w (drawn w + (k + 5))" unfolding eq by simp
    also have "\<dots> = 1 / 2" by (rule Suc.prems[rule_format, OF lt])
    finally show "randoms ?w5 (drawn ?w5 + k) = 1 / 2" .
  qed
  from Suc.IH[OF this, of "h @ [?c]"] obtain h' where
    h': "candle_loop n now p0 (h @ [?c]) ?w5 = ((h @ [?c]) @ h', ?w5\<lparr>drawn := drawn ?w5 + 5 * n\<rparr>)"
        "length h' = n" "\<forall>c \<in> set h'. calm p0 c" by blast
  have c: "calm p0 ?c" by (simp add: calm_def)
  have w: "?w5\<lparr>drawn := drawn ?w5 + 5 * n\<rparr> = w\<lparr>drawn := drawn w + 5 * Suc n\<rparr>" by simp
  have "candle_loop (Suc n) now p0 h w = (h @ (?c # h'), w\<lparr>drawn := drawn w + 5 * Suc n\<rparr>)"
    unfolding step h'(1) w by simp
  moreover have "length (?c # h') = Suc n" using h'(2) by simp
  moreover have "\<forall>c \<in> set (?c # h'). calm p0 c" using h'(3) c by simp
  ultimately show ?case by blast
qed

lemma calm_until_randoms: "k < n \<Longrightarrow> randoms (calm_until n r) k = 1 / 2"
  "\<not> k < n \<Longrightarrow> randoms (calm_until n r) k = r"
  by (simp_all add: calm_until_def)

lemma connect_demo:
  assumes "505 \<le> n"
  shows "\<exists>h. length h = 101 \<and> (\<forall>c \<in> set h. calm 1.0950 c)
           \<and> connect demo_config new_MT5Bridge (calm_until n r)
               = (Inr True, connected_demo h, (calm_until n r)\<lparr>drawn := 505, asked := 1\<rparr>)"
proof -
  let ?w = "calm_until n r"
  let ?w1 = "?w\<lparr>asked := Suc (asked ?w)\<rparr>"
  have "\<forall>k < 5 * 101. randoms ?w1 (drawn ?w1 + k) = 1 / 2"
    using assms by (simp add: calm_until_def)
  from candle_loop_calm[OF this, of "clock ?w (asked ?w)" "1.0950" "[]"] obtain h where
    h: "candle_loop 101 (clock ?w (asked ?w)) 1.0950 [] ?w1 = (h, ?w1\<lparr>drawn := drawn ?w1 + 5 * 101\<rparr>)"
       "length h = 101" "\<forall>c \<in> set h. calm 1.0950 c" by auto
  from h(2) have ne: "h \<noteq> []" by auto
  then have l: "from_end h (Suc 0) = Some (last h)"
    by (cases h rule: rev_cases) (auto simp: from_end_def)
  from h(3) ne have cl: "close (last h) = 1.0950" by (simp add: calm_def)
  have "connect demo_config new_MT5Bridge ?w
               = (Inr True, connected_demo h, ?w\<lparr>drawn := 505, asked := 1\<rparr>)"
    using h(1) l cl
    by (simp add: connect_def initializeMarketData_def Date_now_def Let_def demo_config_def
        new_MT5Bridge_def connected_demo_def calm_until_def)
  with h(2,3) show ?thesis by blast
qed

lemma visit_step:
  assumes "connected b" "marketDataHistory b (MT5Position.symbol (heap w ! (positions b ! i))) = Some h" "h \<noteq> []"
  shows "visit i b w =
     (if crossed (mark (heap w ! (positions b ! i)) (next_price b w)) (next_price b w)
      then (case closePosition (ticket (heap w ! (positions b ! i)))
                  (ticked (MT5Position.symbol (heap w ! (positions b ! i))) h b w)
                  (marked (positions b ! i) (next_price b w) w) of
              (Inl e, b3, w3) \<Rightarrow> (Inl e, b3, w3)
            | (Inr pr, b3, w3) \<Rightarrow> (Inr (), b3, w3))
      else (Inr (), ticked (MT5Position.symbol (heap w ! (positions b ! i))) h b w,
            marked (positions b ! i) (next_price b w) w))"
proof -
  have s: "slice_last 1 (push_candle h (next_candle (last h) b w)) = [next_candle (last h) b w]"
    using assms(3) by (rule push_candle_props(3))
  have c: "close (next_candle (last h) b w) = next_price b w" by (simp add: next_candle_def)
  have t: "ticket (mark p x) = ticket p" for p x by (simp add: mark_def Let_def)
  show ?thesis
    unfolding visit_def Let_def getMarketData_tick[OF assms] s
    by (simp add: c t marked_def)
qed

lemma visit_from_done: "\<not> i < length (positions b) \<Longrightarrow> visit_from i b w = (Inr (), b, w)"
  by (subst visit_from.simps) simp

lemma visit_from_step:
  "i < length (positions b) \<Longrightarrow> visit i b w = (Inr u, b1, w1) \<Longrightarrow>
   visit_from i b w = visit_from (Suc i) b1 w1"
  by (subst visit_from.simps) simp

lemma visit_from_fail:
  "i < length (positions b) \<Longrightarrow> visit i b w = (Inl e, b1, w1) \<Longrightarrow>
   visit_from i b w = (Inl e, b1, w1)"
  by (subst visit_from.simps) simp

lemma marked_fields [simp]:
  "randoms (marked r c w) = randoms w"
  "clock (marked r c w) = clock w"
  "drawn (marked r c w) = drawn w + 4"
  "asked (marked r c w) = Suc (asked w)"
  "heap (marked r c w) = (heap w)[r := mark (heap w ! r) c]"
  by (simp_all add: marked_def)

lemma mark_fields [simp]:
  "ticket (mark p c) = ticket p"
  "MT5Position.symbol (mark p c) = MT5Position.symbol p"
  "type (mark p c) = type p"
  "MT5Position.volume (mark p c) = MT5Position.volume p"
  "openPrice (mark p c) = openPrice p"
  "currentPrice (mark p c) = c"
  "MT5Position.profit (mark p c) =
     (if type p = PBUY then c - openPrice p else openPrice p - c) * MT5Position.volume p * 100000"
  "MT5Position.stopLoss (mark p c) = MT5Position.stopLoss p"
  "MT5Position.takeProfit (mark p c) = MT5Position.takeProfit p"
  by (simp_all add: mark_def Let_def)

text \<open>One open position.\<close>

lemma getPositions_single:
  assumes "connected b" "positions b = [r]"
    "marketDataHistory b (MT5Position.symbol (heap w ! r)) = Some h" "h \<noteq> []" "r < length (heap w)"
  shows "getPositions b w =
     (if crossed (mark (heap w ! r) (next_price b w)) (next_price b w)
      then (Inr [],
            updateAccountInfo
              ((ticked (MT5Position.symbol (heap w ! r)) h b w)
                 \<lparr>accountInfo := (accountInfo b)
                     \<lparr>balance := balance (accountInfo b) + MT5Position.profit (mark (heap w ! r) (next_price b w)),
                      MT5AccountInfo.profit := MT5AccountInfo.profit (accountInfo b)
                                                - MT5Position.profit (mark (heap w ! r) (next_price b w))\<rparr>,
                  positions := []\<rparr>)
              (marked r (next_price b w) w),
            marked r (next_price b w) w)
      else (Inr [r], ticked (MT5Position.symbol (heap w ! r)) h b w, marked r (next_price b w) w))"
proof -
  let ?c = "next_price b w"
  let ?b1 = "ticked (MT5Position.symbol (heap w ! r)) h b w"
  let ?w2 = "marked r ?c w"
  have i: "0 < length (positions b)" "positions b ! 0 = r" using assms(2) by simp_all
  have h0: "marketDataHistory b (MT5Position.symbol (heap w ! (positions b ! 0))) = Some h"
    using assms(3) i(2) by simp
  note v = visit_step[OF assms(1) h0 assms(4), unfolded i(2)]
  show ?thesis
  proof (cases "crossed (mark (heap w ! r) ?c) ?c")
    case False
    with v have v': "visit 0 b w = (Inr (), ?b1, ?w2)" by simp
    have "visit_from 0 b w = visit_from (Suc 0) ?b1 ?w2" by (rule visit_from_step[OF i(1) v'])
    also have "\<dots> = (Inr (), ?b1, ?w2)" by (rule visit_from_done) (simp add: assms(2))
    finally show ?thesis using False assms(1,2) by (simp add: getPositions_def)
  next
    case True
    have f: "findIndex (\<lambda>q. ticket (heap ?w2 ! q) = ticket (heap w ! r)) (positions ?b1) = Some 0"
      using assms(2,5) by simp
    let ?b3 = "updateAccountInfo
              (?b1\<lparr>accountInfo := (accountInfo b)
                     \<lparr>balance := balance (accountInfo b) + MT5Position.profit (mark (heap w ! r) ?c),
                      MT5AccountInfo.profit := MT5AccountInfo.profit (accountInfo b)
                                                - MT5Position.profit (mark (heap w ! r) ?c)\<rparr>,
                  positions := []\<rparr>) ?w2"
    have cp: "closePosition (ticket (heap w ! r)) ?b1 ?w2
               = (Inr (MT5Position.profit (mark (heap w ! r) ?c)), ?b3, ?w2)"
      unfolding closePosition_def f using assms(1,2,5) by (simp add: Let_def)
    from v True cp have v': "visit 0 b w = (Inr (), ?b3, ?w2)" by simp
    have "visit_from 0 b w = visit_from (Suc 0) ?b3 ?w2" by (rule visit_from_step[OF i(1) v'])
    also have "\<dots> = (Inr (), ?b3, ?w2)" by (rule visit_from_done) simp
    finally show ?thesis using True assms(1) by (simp add: getPositions_def)
  qed
qed

lemma connected_demo_fields [simp]:
  "connected (connected_demo h)"
  "positions (connected_demo h) = []"
  "marketDataHistory (connected_demo h) ''EURUSD'' = Some h"
  "simulatedPrice (connected_demo h) = 1.0950"
  "accountInfo (connected_demo h) = accountInfo new_MT5Bridge"
  by (simp_all add: connected_demo_def new_MT5Bridge_def)

lemma new_position_fields [simp]:
  "ticket (new_position symb ty vol sl tp b w) = clock w (asked w + 1)"
  "MT5Position.symbol (new_position symb ty vol sl tp b w) = symb"
  "type (new_position symb ty vol sl tp b w) = ty"
  "MT5Position.volume (new_position symb ty vol sl tp b w) = vol"
  "openPrice (new_position symb ty vol sl tp b w) = next_price b w"
  "currentPrice (new_position symb ty vol sl tp b w) = next_price b w"
  "MT5Position.profit (new_position symb ty vol sl tp b w) = 0"
  "MT5Position.stopLoss (new_position symb ty vol sl tp b w) = sl"
  "MT5Position.takeProfit (new_position symb ty vol sl tp b w) = tp"
  by (simp_all add: new_position_def)

lemma after_connect_fields [simp]:
  "drawn after_connect = 505" "asked after_connect = 1" "heap after_connect = []"
  "505 \<le> k \<Longrightarrow> randoms after_connect k = 3 / 4"
  by (simp_all add: after_connect_def calm_until_def)

lemma one_position_session_eq:
  "\<exists>h. h \<noteq> [] \<and> one_position_session =
     (updateAccountInfo ((ticked ''EURUSD'' h (connected_demo h) after_connect)\<lparr>positions := [0]\<rparr>)
        ((drew after_connect)\<lparr>asked := 4,
            heap := [new_position ''EURUSD'' PBUY 1 (Some 0) (Some 10) (connected_demo h) after_connect]\<rparr>),
      (drew after_connect)\<lparr>asked := 4,
            heap := [new_position ''EURUSD'' PBUY 1 (Some 0) (Some 10) (connected_demo h) after_connect]\<rparr>)"
proof -
  from connect_demo[of 505 "3 / 4"] obtain h where
    h: "length h = 101"
       "connect demo_config new_MT5Bridge (calm_until 505 (3 / 4)) = (Inr True, connected_demo h, after_connect)"
    by (auto simp: after_connect_def)
  from h(1) have ne: "h \<noteq> []" by auto
  have o: "openPosition ''EURUSD'' PBUY 1 (Some 0) (Some 10) (connected_demo h) after_connect =
     (Inr (length (heap after_connect)),
      updateAccountInfo ((ticked ''EURUSD'' h (connected_demo h) after_connect)
          \<lparr>positions := positions (connected_demo h) @ [length (heap after_connect)]\<rparr>)
        ((drew after_connect)\<lparr>asked := asked after_connect + 3,
            heap := heap after_connect @ [new_position ''EURUSD'' PBUY 1 (Some 0) (Some 10) (connected_demo h) after_connect]\<rparr>),
      (drew after_connect)\<lparr>asked := asked after_connect + 3,
            heap := heap after_connect @ [new_position ''EURUSD'' PBUY 1 (Some 0) (Some 10) (connected_demo h) after_connect]\<rparr>)"
    by (rule openPosition_tick) (simp_all add: ne)
  show ?thesis
    by (rule exI[of _ h]) (simp add: one_position_session_def h(2) o ne)
qed

lemma next_price_demo [simp]: "next_price (connected_demo h) after_connect = 1.0950 * 1.000375"
  by (simp add: next_price_def)

lemma one_position_session_facts:
  "\<exists>b w h. one_position_session = (b, w) \<and> connected b \<and> positions b = [0] \<and> length (heap w) = 1
     \<and> h \<noteq> [] \<and> marketDataHistory b ''EURUSD'' = Some h
     \<and> simulatedPrice b = 1.0950 * 1.000375
     \<and> balance (accountInfo b) = 10000 \<and> equity (accountInfo b) = 10000
     \<and> drawn w = 509 \<and> (\<forall>k \<ge> 505. randoms w k = 3 / 4)
     \<and> asked w = 4 \<and> (\<forall>n. clock w n = 1000 + int n)
     \<and> ticket (heap w ! 0) = 1002
     \<and> MT5Position.symbol (heap w ! 0) = ''EURUSD'' \<and> type (heap w ! 0) = PBUY
     \<and> MT5Position.volume (heap w ! 0) = 1
     \<and> openPrice (heap w ! 0) = 1.0950 * 1.000375
     \<and> MT5Position.stopLoss (heap w ! 0) = Some 0 \<and> MT5Position.takeProfit (heap w ! 0) = Some 10"
proof -
  from one_position_session_eq obtain h where ne: "h \<noteq> []" and
    s: "one_position_session =
     (updateAccountInfo ((ticked ''EURUSD'' h (connected_demo h) after_connect)\<lparr>positions := [0]\<rparr>)
        ((drew after_connect)\<lparr>asked := 4,
            heap := [new_position ''EURUSD'' PBUY 1 (Some 0) (Some 10) (connected_demo h) after_connect]\<rparr>),
      (drew after_connect)\<lparr>asked := 4,
            heap := [new_position ''EURUSD'' PBUY 1 (Some 0) (Some 10) (connected_demo h) after_connect]\<rparr>)"
    by blast
  let ?p = "new_position ''EURUSD'' PBUY 1 (Some 0) (Some 10) (connected_demo h) after_connect"
  let ?w = "(drew after_connect)\<lparr>asked := 4, heap := [?p]\<rparr>"
  let ?b = "updateAccountInfo ((ticked ''EURUSD'' h (connected_demo h) after_connect)\<lparr>positions := [0]\<rparr>) ?w"
  let ?h = "push_candle h (next_candle (last h) (connected_demo h) after_connect)"
  have ne2: "?h \<noteq> []" using ne by (rule push_candle_props(1))
  have e: "equity (accountInfo ?b) = 10000" "balance (accountInfo ?b) = 10000"
    by (simp_all add: updateAccountInfo_def Let_def new_MT5Bridge_def)
  have t: "ticket (heap ?w ! 0) = 1002" by (simp add: after_connect_def calm_until_def)
  have "connected ?b" "positions ?b = [0]" "length (heap ?w) = 1" "marketDataHistory ?b ''EURUSD'' = Some ?h"
    "simulatedPrice ?b = 1.0950 * 1.000375" "drawn ?w = 509" "\<forall>k \<ge> 505. randoms ?w k = 3 / 4"
    "MT5Position.symbol (heap ?w ! 0) = ''EURUSD''" "type (heap ?w ! 0) = PBUY"
    "MT5Position.volume (heap ?w ! 0) = 1" "openPrice (heap ?w ! 0) = 1.0950 * 1.000375"
    "MT5Position.stopLoss (heap ?w ! 0) = Some 0" "MT5Position.takeProfit (heap ?w ! 0) = Some 10"
    by simp_all
  moreover have "asked ?w = 4" "\<forall>n. clock ?w n = 1000 + int n"
    by (simp_all add: after_connect_def calm_until_def)
  ultimately show ?thesis using s ne2 e t by blast
qed





text \<open>
  Claim C5, as amended. For every ticket that no open position carries,
  \<^verbatim>\<open>closePosition\<close> fails and leaves the bridge (balance, equity, open positions and
  all the rest) and the runtime as they were: with the NotFound error on a connected
  bridge, with the not-connected error otherwise.
\<close>

theorem closePosition_absent_ticket:
  assumes "t \<notin> set (map (\<lambda>r. ticket (heap w ! r)) (positions b))"
  shows "closePosition t b w = (Inl (if connected b then PositionNotFound else NotConnected), b, w)"
  using assms by (rule closePosition_absent)

theorem closePosition_absent_ticket_witness:
  "positions (fst one_position_session) = [0]
   \<and> ticket (heap (snd one_position_session) ! 0) = 1002
   \<and> 7 \<notin> set (map (\<lambda>r. ticket (heap (snd one_position_session) ! r)) (positions (fst one_position_session)))
   \<and> closePosition 7 (fst one_position_session) (snd one_position_session)
       = (Inl PositionNotFound, fst one_position_session, snd one_position_session)"
proof -
  from one_position_session_facts obtain b w where
    f: "one_position_session = (b, w)" "connected b" "positions b = [0]" "ticket (heap w ! 0) = 1002"
    by blast
  have a: "7 \<notin> set (map (\<lambda>r. ticket (heap w ! r)) (positions b))" by (simp add: f)
  from closePosition_absent_ticket[OF a] a show ?thesis by (simp add: f)
qed

text \<open>On a bridge that is not connected the failure is the not-connected error, also
  when positions are still open.\<close>

theorem closePosition_disconnected_counterexample:
  "positions (disconnect (fst one_position_session)) = [0]
   \<and> ticket (heap (snd one_position_session) ! 0) = 1002
   \<and> fst (closePosition 7 (disconnect (fst one_position_session)) (snd one_position_session)) = Inl NotConnected"
proof -
  from one_position_session_facts obtain b w where
    f: "one_position_session = (b, w)" "connected b" "positions b = [0]" "ticket (heap w ! 0) = 1002"
    by blast
  show ?thesis by (simp add: f closePosition_def disconnect_def)
qed

lemma ticket_marked [simp]:
  "ticket (hp[r := mark (hp ! r) c] ! q) = ticket (hp ! q)"
  by (cases "q = r"; cases "r < length hp") (simp_all add: list_update_beyond)

lemma visit_crossed_distinct:
  assumes "connected b" "i < length (positions b)" "positions b ! i = r"
    "marketDataHistory b (MT5Position.symbol (heap w ! r)) = Some h" "h \<noteq> []"
    "distinct (map (\<lambda>q. ticket (heap w ! q)) (positions b))"
    "crossed (mark (heap w ! r) (next_price b w)) (next_price b w)" "r < length (heap w)"
  shows "visit i b w = (Inr (), settled i h b w, marked r (next_price b w) w)"
proof -
  let ?c = "next_price b w"
  let ?s = "MT5Position.symbol (heap w ! r)"
  let ?w2 = "marked r ?c w"
  have h0: "marketDataHistory b (MT5Position.symbol (heap w ! (positions b ! i))) = Some h"
    using assms(3,4) by simp
  note v = visit_step[OF assms(1) h0 assms(5), unfolded assms(3)]
  have "\<forall>j < i. ticket (heap w ! (positions b ! j)) \<noteq> ticket (heap w ! (positions b ! i))"
  proof (intro allI impI)
    fix j assume "j < i"
    with assms(2) have "j < length (positions b)" "j \<noteq> i" by simp_all
    with assms(2,6) show "ticket (heap w ! (positions b ! j)) \<noteq> ticket (heap w ! (positions b ! i))"
      by (simp add: distinct_conv_nth)
  qed
  then have f: "findIndex (\<lambda>q. ticket (heap ?w2 ! q) = ticket (heap w ! r)) (positions (ticked ?s h b w)) = Some i"
    using assms(2,3) by (intro findIndex_first) simp_all
  have pr: "MT5Position.profit (heap ?w2 ! r) = MT5Position.profit (mark (heap w ! r) ?c)"
    using assms(8) by simp
  have cp: "closePosition (ticket (heap w ! r)) (ticked ?s h b w) ?w2
               = (Inr (MT5Position.profit (heap ?w2 ! r)),
                  updateAccountInfo ((ticked ?s h b w)
                     \<lparr>accountInfo := (accountInfo b)
                        \<lparr>balance := balance (accountInfo b) + MT5Position.profit (heap ?w2 ! r),
                         MT5AccountInfo.profit := MT5AccountInfo.profit (accountInfo b) - MT5Position.profit (heap ?w2 ! r)\<rparr>,
                      positions := take i (positions b) @ drop (Suc i) (positions b)\<rparr>) ?w2, ?w2)"
    unfolding closePosition_def f using assms(1,3) by (simp add: Let_def)
  show ?thesis
    using v assms(7,8) by (simp add: cp settled_def Let_def assms(3))
qed

lemma visit_uncrossed:
  assumes "connected b" "positions b ! i = r"
    "marketDataHistory b (MT5Position.symbol (heap w ! r)) = Some h" "h \<noteq> []"
    "\<not> crossed (mark (heap w ! r) (next_price b w)) (next_price b w)"
  shows "visit i b w = (Inr (), ticked (MT5Position.symbol (heap w ! r)) h b w, marked r (next_price b w) w)"
proof -
  have h0: "marketDataHistory b (MT5Position.symbol (heap w ! (positions b ! i))) = Some h"
    using assms(2,3) by simp
  from visit_step[OF assms(1) h0 assms(4), unfolded assms(2)] assms(5) show ?thesis by simp
qed

lemma getCurrentPrice_ticked:
  "h \<noteq> [] \<Longrightarrow> getCurrentPrice symb (ticked symb h b w) = next_price b w"
proof -
  assume ne: "h \<noteq> []"
  let ?h = "push_candle h (next_candle (last h) b w)"
  have "?h \<noteq> []" using ne by (rule push_candle_props(1))
  then have "from_end ?h (Suc 0) = Some (last ?h)"
    by (cases ?h rule: rev_cases) (auto simp: from_end_def)
  then show ?thesis
    by (simp add: getCurrentPrice_def push_candle_props(2) next_candle_def)
qed

lemma settled_fields [simp]:
  "positions (settled i h b w) = take i (positions b) @ drop (Suc i) (positions b)"
  "connected (settled i h b w) = connected b"
  "simulatedPrice (settled i h b w) = next_price b w"
  "marketDataHistory (settled i h b w) = marketDataHistory (ticked (MT5Position.symbol (heap w ! (positions b ! i))) h b w)"
  "balance (accountInfo (settled i h b w))
     = balance (accountInfo b) + MT5Position.profit (mark (heap w ! (positions b ! i)) (next_price b w))"
  by (simp_all add: settled_def Let_def)

lemma getCurrentPrice_cong:
  "marketDataHistory b' = marketDataHistory b \<Longrightarrow> getCurrentPrice symb b' = getCurrentPrice symb b"
  by (simp add: getCurrentPrice_def)

lemma closePosition_first:
  assumes "connected b" "findIndex (\<lambda>q. ticket (heap w ! q) = t) (positions b) = Some k"
  shows "closePosition t b w = (Inr (MT5Position.profit (heap w ! (positions b ! k))), closed_at k b w, w)"
  using assms by (simp add: closePosition_def closed_at_def Let_def)

lemma closed_at_fields [simp]:
  "positions (closed_at k b w) = take k (positions b) @ drop (Suc k) (positions b)"
  "connected (closed_at k b w) = connected b"
  "marketDataHistory (closed_at k b w) = marketDataHistory b"
  "simulatedPrice (closed_at k b w) = simulatedPrice b"
  "balance (accountInfo (closed_at k b w))
     = balance (accountInfo b) + MT5Position.profit (heap w ! (positions b ! k))"
  by (simp_all add: closed_at_def Let_def)

lemma closed_at_consistent: "account_consistent (closed_at k b w) w"
  unfolding closed_at_def Let_def by (rule updateAccountInfo_consistent)

lemma has_history_ticked:
  "has_history b s \<Longrightarrow> h \<noteq> [] \<Longrightarrow> has_history (ticked s' h b w) s"
  by (cases "s = s'") (simp_all add: has_history_def push_candle_props(1))

lemma remarked_eq:
  "marketDataHistory b (MT5Position.symbol (heap w ! r)) = Some h \<Longrightarrow>
   remarked r (b, w) = (ticked (MT5Position.symbol (heap w ! r)) h b w, marked r (next_price b w) w)"
  by (simp add: remarked_def)

lemma symbol_marked [simp]:
  "MT5Position.symbol (hp[r := mark (hp ! r) c] ! q) = MT5Position.symbol (hp ! q)"
  by (cases "q = r"; cases "r < length hp") (simp_all add: list_update_beyond)

lemma ready_remarked:
  assumes "ready rs b w" "has_history b (MT5Position.symbol (heap w ! r))"
  shows "ready rs (fst (remarked r (b, w))) (snd (remarked r (b, w)))"
    and "positions (fst (remarked r (b, w))) = positions b"
    and "length (heap (snd (remarked r (b, w)))) = length (heap w)"
proof -
  from assms(2) obtain h where h: "marketDataHistory b (MT5Position.symbol (heap w ! r)) = Some h" "h \<noteq> []"
    by (auto simp: has_history_def split: option.splits)
  note e = remarked_eq[OF h(1)]
  show "ready rs (fst (remarked r (b, w))) (snd (remarked r (b, w)))"
    using assms(1) h(2) unfolding e ready_def
    by (auto simp: list_all_iff has_history_ticked)
  show "positions (fst (remarked r (b, w))) = positions b" unfolding e by simp
  show "length (heap (snd (remarked r (b, w)))) = length (heap w)" unfolding e by simp
qed

lemma visit_kept:
  assumes "connected b" "positions b ! i = r" "has_history b (MT5Position.symbol (heap w ! r))"
    "\<not> crossed (mark (heap w ! r) (next_price b w)) (next_price b w)"
  shows "visit i b w = (Inr (), fst (remarked r (b, w)), snd (remarked r (b, w)))"
proof -
  from assms(3) obtain h where h: "marketDataHistory b (MT5Position.symbol (heap w ! r)) = Some h" "h \<noteq> []"
    by (auto simp: has_history_def split: option.splits)
  from visit_uncrossed[OF assms(1,2) h assms(4)] show ?thesis by (simp add: remarked_eq[OF h(1)])
qed

lemma visit_from_kept:
  assumes "ready (positions b) b w" "drop i (positions b) = rs @ rest" "kept rs (b, w)"
  shows "visit_from i b w
           = visit_from (i + length rs) (fst (remarked_all rs (b, w))) (snd (remarked_all rs (b, w)))
         \<and> positions (fst (remarked_all rs (b, w))) = positions b
         \<and> length (heap (snd (remarked_all rs (b, w)))) = length (heap w)
         \<and> ready (positions b) (fst (remarked_all rs (b, w))) (snd (remarked_all rs (b, w)))"
  using assms
proof (induction rs arbitrary: i b w)
  case Nil
  then show ?case by simp
next
  case (Cons r rs)
  from Cons.prems(2) have il: "i < length (positions b)" by (cases "i < length (positions b)") simp_all
  from Cons.prems(2) have ri: "positions b ! i = r"
    by (metis il Cons_nth_drop_Suc append_Cons list.inject)
  from Cons.prems(2) have dr: "drop (Suc i) (positions b) = rs @ rest"
    by (metis il Cons_nth_drop_Suc append_Cons list.inject)
  from Cons.prems(1) il ri have rr: "r < length (heap w)" "has_history b (MT5Position.symbol (heap w ! r))"
    by (auto simp: ready_def list_all_iff dest: nth_mem)
  from Cons.prems(1) have cb: "connected b" by (simp add: ready_def)
  from Cons.prems(3) have nc: "\<not> crossed (mark (heap w ! r) (next_price b w)) (next_price b w)"
    and k: "kept rs (remarked r (b, w))" by simp_all
  obtain b1 w1 where e: "remarked r (b, w) = (b1, w1)" by (metis prod.exhaust)
  note rm = ready_remarked[OF Cons.prems(1) rr(2), unfolded e fst_conv snd_conv]
  have v: "visit i b w = (Inr (), b1, w1)" using visit_kept[OF cb ri rr(2) nc] e by simp
  have s: "visit_from i b w = visit_from (Suc i) b1 w1" by (rule visit_from_step[OF il v])
  have "ready (positions b1) b1 w1" using rm by simp
  moreover have "drop (Suc i) (positions b1) = rs @ rest" using dr rm by simp
  moreover have "kept rs (b1, w1)" using k e by simp
  ultimately have ih: "visit_from (Suc i) b1 w1
           = visit_from (Suc i + length rs) (fst (remarked_all rs (b1, w1))) (snd (remarked_all rs (b1, w1)))
         \<and> positions (fst (remarked_all rs (b1, w1))) = positions b1
         \<and> length (heap (snd (remarked_all rs (b1, w1)))) = length (heap w1)
         \<and> ready (positions b1) (fst (remarked_all rs (b1, w1))) (snd (remarked_all rs (b1, w1)))"
    by (rule Cons.IH)
  show ?case using s ih rm by (simp add: e)
qed

lemma remarked_heap_other:
  "q \<noteq> r \<Longrightarrow> heap (snd (remarked r s)) ! q = heap (snd s) ! q"
  by (simp add: remarked_def split: option.splits)

lemma remarked_all_heap_other:
  "q \<notin> set rs \<Longrightarrow> heap (snd (remarked_all rs s)) ! q = heap (snd s) ! q"
  by (induction rs arbitrary: s) (simp_all add: remarked_heap_other)

lemma remarked_heap_self:
  assumes "has_history (fst s) (MT5Position.symbol (heap (snd s) ! r))" "r < length (heap (snd s))"
  shows "heap (snd (remarked r s)) ! r = mark (heap (snd s) ! r) (next_price (fst s) (snd s))"
  using assms by (auto simp: remarked_def has_history_def split: option.splits)

lemma crossed_cong:
  "type p = type p' \<Longrightarrow> MT5Position.stopLoss p = MT5Position.stopLoss p' \<Longrightarrow>
   MT5Position.takeProfit p = MT5Position.takeProfit p' \<Longrightarrow> crossed p c = crossed p' c"
  by (simp add: crossed_def)

lemma marked_right_mark: "marked_right (mark p c)"
  by (simp add: marked_right_def)

lemma ready_Cons:
  assumes "ready (r # rs) (fst s) (snd s)"
  shows "has_history (fst s) (MT5Position.symbol (heap (snd s) ! r))" "r < length (heap (snd s))"
    "ready rs (fst s) (snd s)" "ready (r # rs) (fst (remarked r s)) (snd (remarked r s))"
    "ready rs (fst (remarked r s)) (snd (remarked r s))"
proof -
  show h: "has_history (fst s) (MT5Position.symbol (heap (snd s) ! r))"
    and "r < length (heap (snd s))" and "ready rs (fst s) (snd s)"
    using assms by (simp_all add: ready_def)
  show r: "ready (r # rs) (fst (remarked r s)) (snd (remarked r s))"
    using ready_remarked(1)[of "r # rs" "fst s" "snd s" r] assms h by simp
  then show "ready rs (fst (remarked r s)) (snd (remarked r s))" by (simp add: ready_def)
qed

lemma remarked_all_visited:
  assumes "ready rs (fst s) (snd s)" "distinct rs" "kept rs s" "j < length rs"
  shows "heap (snd (remarked_all rs s)) ! (rs ! j)
           = mark (heap (snd s) ! (rs ! j))
               (next_price (fst (remarked_all (take j rs) s)) (snd (remarked_all (take j rs) s)))
         \<and> \<not> crossed (heap (snd (remarked_all rs s)) ! (rs ! j))
                      (currentPrice (heap (snd (remarked_all rs s)) ! (rs ! j)))"
  using assms
proof (induction rs arbitrary: s j)
  case Nil
  then show ?case by simp
next
  case (Cons r rs)
  note rd = ready_Cons[OF Cons.prems(1)]
  from Cons.prems(2) have d: "r \<notin> set rs" "distinct rs" by simp_all
  from Cons.prems(3) have nc: "\<not> crossed (mark (heap (snd s) ! r) (next_price (fst s) (snd s))) (next_price (fst s) (snd s))"
    and k: "kept rs (remarked r s)" by simp_all
  show ?case
  proof (cases j)
    case 0
    have "heap (snd (remarked_all rs (remarked r s))) ! r = heap (snd (remarked r s)) ! r"
      by (rule remarked_all_heap_other[OF d(1)])
    also have "\<dots> = mark (heap (snd s) ! r) (next_price (fst s) (snd s))"
      by (rule remarked_heap_self[OF rd(1,2)])
    finally show ?thesis using nc 0 by simp
  next
    case (Suc j')
    with Cons.prems(4) have j': "j' < length rs" by simp
    from j' d(1) have ne: "rs ! j' \<noteq> r" by (metis nth_mem)
    note ih = Cons.IH[OF rd(5) d(2) k j']
    have o: "heap (snd (remarked r s)) ! (rs ! j') = heap (snd s) ! (rs ! j')"
      by (rule remarked_heap_other[OF ne])
    note ih' = ih[unfolded o]
    have i1: "heap (snd (remarked_all rs (remarked r s))) ! (rs ! j')
           = mark (heap (snd s) ! (rs ! j'))
               (next_price (fst (remarked_all (take j' rs) (remarked r s)))
                  (snd (remarked_all (take j' rs) (remarked r s))))"
      by (rule conjunct1[OF ih'])
    have i2: "\<not> crossed (heap (snd (remarked_all rs (remarked r s))) ! (rs ! j'))
                      (currentPrice (heap (snd (remarked_all rs (remarked r s))) ! (rs ! j')))"
      by (rule conjunct2[OF ih'])
    show ?thesis
      unfolding Suc nth_Cons_Suc remarked_all.simps take_Suc_Cons by (rule conjI[OF i1 i2])
  qed
qed

lemma getPositions_last:
  assumes "ready (positions b) b w" "positions b = rs @ [r]" "kept rs (b, w)"
    "remarked_all rs (b, w) = (b1, w1)"
    "marketDataHistory b1 (MT5Position.symbol (heap w1 ! r)) = Some h"
    "findIndex (\<lambda>q. ticket (heap w1 ! q) = ticket (heap w1 ! r)) (positions b) = Some k"
  shows "getPositions b w =
      (if crossed (mark (heap w1 ! r) (next_price b1 w1)) (next_price b1 w1)
       then (Inr (take k (positions b) @ drop (Suc k) (positions b)),
             closed_at k (ticked (MT5Position.symbol (heap w1 ! r)) h b1 w1) (marked r (next_price b1 w1) w1),
             marked r (next_price b1 w1) w1)
       else (Inr (positions b), ticked (MT5Position.symbol (heap w1 ! r)) h b1 w1,
             marked r (next_price b1 w1) w1))"
proof -
  let ?c = "next_price b1 w1"
  let ?s = "MT5Position.symbol (heap w1 ! r)"
  let ?b2 = "ticked ?s h b1 w1"
  let ?w2 = "marked r ?c w1"
  let ?n = "length rs"
  have cb: "connected b" using assms(1) by (simp add: ready_def)
  have d: "drop 0 (positions b) = rs @ [r]" using assms(2) by simp
  from visit_from_kept[OF assms(1) d assms(3)] assms(4)
  have l: "visit_from 0 b w = visit_from ?n b1 w1" "positions b1 = positions b"
    "ready (positions b) b1 w1" by simp_all
  have cb1: "connected b1" using l(3) by (simp add: ready_def)
  have pn: "positions b1 ! ?n = r" "?n < length (positions b1)" using l(2) assms(2) by simp_all
  from l(3) assms(2,5) have ne: "h \<noteq> []" by (auto simp: ready_def has_history_def)
  have h0: "marketDataHistory b1 (MT5Position.symbol (heap w1 ! (positions b1 ! ?n))) = Some h"
    using assms(5) pn(1) by simp
  note v = visit_step[OF cb1 h0 ne, unfolded pn(1)]
  show ?thesis
  proof (cases "crossed (mark (heap w1 ! r) ?c) ?c")
    case False
    with v have v': "visit ?n b1 w1 = (Inr (), ?b2, ?w2)" by simp
    have "visit_from ?n b1 w1 = visit_from (Suc ?n) ?b2 ?w2" by (rule visit_from_step[OF pn(2) v'])
    also have "\<dots> = (Inr (), ?b2, ?w2)" by (rule visit_from_done) (simp add: l(2) assms(2))
    finally show ?thesis using False cb l(1,2) by (simp add: getPositions_def)
  next
    case True
    have f: "findIndex (\<lambda>q. ticket (heap ?w2 ! q) = ticket (heap w1 ! r)) (positions ?b2) = Some k"
      using assms(6) l(2) by simp
    have c2: "connected ?b2" using cb1 by simp
    note cp = closePosition_first[OF c2 f]
    from v True cp have v': "visit ?n b1 w1 = (Inr (), closed_at k ?b2 ?w2, ?w2)" by simp
    have "visit_from ?n b1 w1 = visit_from (Suc ?n) (closed_at k ?b2 ?w2) ?w2"
      by (rule visit_from_step[OF pn(2) v'])
    also have "\<dots> = (Inr (), closed_at k ?b2 ?w2, ?w2)"
      by (rule visit_from_done) (simp add: l(2) assms(2))
    finally show ?thesis using True cb l(1,2) by (simp add: getPositions_def)
  qed
qed

lemma remarked_all_account:
  "accountInfo (fst (remarked_all rs s)) = accountInfo (fst s)"
  by (induction rs arbitrary: s) (simp_all add: remarked_def split: option.splits)

lemma two_positions_session_facts:
  "\<exists>b w h. two_positions_session = (b, w) \<and> connected b \<and> positions b = [0, 1] \<and> length (heap w) = 2
     \<and> h \<noteq> [] \<and> marketDataHistory b ''EURUSD'' = Some h
     \<and> simulatedPrice b = 1.0950 * 1.000375 * 1.000375
     \<and> (\<forall>k \<ge> 505. randoms w k = 3 / 4) \<and> 505 \<le> drawn w
     \<and> ticket (heap w ! 0) = 1002 \<and> ticket (heap w ! 1) = 1005
     \<and> MT5Position.symbol (heap w ! 0) = ''EURUSD'' \<and> MT5Position.symbol (heap w ! 1) = ''EURUSD''
     \<and> type (heap w ! 0) = PBUY \<and> type (heap w ! 1) = PSELL
     \<and> MT5Position.stopLoss (heap w ! 0) = Some 0 \<and> MT5Position.takeProfit (heap w ! 0) = Some 10
     \<and> MT5Position.stopLoss (heap w ! 1) = Some 10 \<and> MT5Position.takeProfit (heap w ! 1) = Some 0"
proof -
  from one_position_session_facts obtain b w h where
    f: "one_position_session = (b, w)" "connected b" "positions b = [0]" "length (heap w) = 1"
     "h \<noteq> []" "marketDataHistory b ''EURUSD'' = Some h"
     "simulatedPrice b = 1.0950 * 1.000375"
     "drawn w = 509" "\<forall>k \<ge> 505. randoms w k = 3 / 4"
     "asked w = 4" "\<forall>n. clock w n = 1000 + int n"
     "ticket (heap w ! 0) = 1002"
     "MT5Position.symbol (heap w ! 0) = ''EURUSD''" "type (heap w ! 0) = PBUY"
     "MT5Position.stopLoss (heap w ! 0) = Some 0" "MT5Position.takeProfit (heap w ! 0) = Some 10"
    by blast
  let ?p = "new_position ''EURUSD'' PSELL 1 (Some 10) (Some 0) b w"
  let ?w1 = "(drew w)\<lparr>asked := asked w + 3, heap := heap w @ [?p]\<rparr>"
  let ?b1 = "updateAccountInfo ((ticked ''EURUSD'' h b w)\<lparr>positions := positions b @ [length (heap w)]\<rparr>) ?w1"
  let ?h1 = "push_candle h (next_candle (last h) b w)"
  have o: "openPosition ''EURUSD'' PSELL 1 (Some 10) (Some 0) b w = (Inr (length (heap w)), ?b1, ?w1)"
    by (rule openPosition_tick[OF f(2,6,5)])
  have t: "two_positions_session = perform (OpenPosition ''EURUSD'' PSELL 1 (Some 10) (Some 0)) one_position_session"
    by (simp add: two_positions_session_def one_position_session_def)
  have e: "two_positions_session = (?b1, ?w1)" unfolding t f(1) by (simp add: o)
  have ne1: "?h1 \<noteq> []" using f(5) by (rule push_candle_props(1))
  have np: "next_price b w = 1.0950 * 1.000375 * 1.000375" by (simp add: next_price_def f)
  have "connected ?b1" "positions ?b1 = [0, 1]" "length (heap ?w1) = 2" "marketDataHistory ?b1 ''EURUSD'' = Some ?h1"
    "simulatedPrice ?b1 = 1.0950 * 1.000375 * 1.000375" "\<forall>k \<ge> 505. randoms ?w1 k = 3 / 4" "505 \<le> drawn ?w1"
    "ticket (heap ?w1 ! 0) = 1002" "ticket (heap ?w1 ! 1) = 1005"
    "MT5Position.symbol (heap ?w1 ! 0) = ''EURUSD''" "MT5Position.symbol (heap ?w1 ! 1) = ''EURUSD''"
    "type (heap ?w1 ! 0) = PBUY" "type (heap ?w1 ! 1) = PSELL"
    "MT5Position.stopLoss (heap ?w1 ! 0) = Some 0" "MT5Position.takeProfit (heap ?w1 ! 0) = Some 10"
    "MT5Position.stopLoss (heap ?w1 ! 1) = Some 10" "MT5Position.takeProfit (heap ?w1 ! 1) = Some 0"
    using f np by (simp_all add: nth_append)
  with e ne1 show ?thesis by blast
qed

text \<open>
  Claim C3, as amended. Take a connected bridge whose open positions are live objects,
  each in the array once, each with a symbol that has a history; let \<open>rs @ [r]\<close> be the
  array, and assume that none of \<open>rs\<close> crosses its stop or target at its visit. A single
  \<^verbatim>\<open>getPositions\<close> call then visits the positions in turn. Each visit requests market
  data for the position's symbol, which pushes one new candle, and marks the position
  to that candle's close: the position at index \<open>j\<close> is at the close of the \<open>j\<close>-th new
  candle, and only the last one, \<open>r\<close>, is at the latest close when the call returns.
  Every profit is the direction-signed difference between the position's current
  price and its open price times volume times 100000. If the price of \<open>r\<close> has crossed
  its stop or target (BUY: price \<open>\<le>\<close> stop or price \<open>\<ge>\<close> target; SELL: price \<open>\<ge>\<close> stop or
  price \<open>\<le>\<close> target), \<^verbatim>\<open>closePosition\<close> is called with its ticket: the first open
  position carrying that ticket (index \<open>k\<close>) leaves the array, its profit is credited to
  the balance and the account is recomputed. The call returns the array as it then
  is; when the position removed is \<open>r\<close> itself, or none is, no returned position has
  crossed its stop or target at the price it is marked to.
\<close>

theorem getPositions_in_turn:
  assumes "live b w" "positions b = rs @ [r]" "kept rs (b, w)"
    "remarked_all rs (b, w) = (b1, w1)"
    "marketDataHistory b1 (MT5Position.symbol (heap w1 ! r)) = Some h"
    "findIndex (\<lambda>q. ticket (heap w1 ! q) = ticket (heap w1 ! r)) (positions b) = Some k"
  shows "getPositions b w =
      (if crossed (mark (heap w1 ! r) (next_price b1 w1)) (next_price b1 w1)
       then (Inr (take k (positions b) @ drop (Suc k) (positions b)),
             closed_at k (ticked (MT5Position.symbol (heap w1 ! r)) h b1 w1) (marked r (next_price b1 w1) w1),
             marked r (next_price b1 w1) w1)
       else (Inr (positions b), ticked (MT5Position.symbol (heap w1 ! r)) h b1 w1,
             marked r (next_price b1 w1) w1))
    \<and> (\<forall>j < length rs.
          heap (marked r (next_price b1 w1) w1) ! (rs ! j)
            = mark (heap w ! (rs ! j))
                (next_price (fst (remarked_all (take j rs) (b, w))) (snd (remarked_all (take j rs) (b, w))))
          \<and> \<not> crossed (heap (marked r (next_price b1 w1) w1) ! (rs ! j))
                       (currentPrice (heap (marked r (next_price b1 w1) w1) ! (rs ! j))))
    \<and> heap (marked r (next_price b1 w1) w1) ! r = mark (heap w ! r) (next_price b1 w1)
    \<and> getCurrentPrice (MT5Position.symbol (heap w1 ! r))
         (ticked (MT5Position.symbol (heap w1 ! r)) h b1 w1) = next_price b1 w1
    \<and> (\<forall>q \<in> set (positions b). marked_right (heap (marked r (next_price b1 w1) w1) ! q))
    \<and> ((crossed (mark (heap w1 ! r) (next_price b1 w1)) (next_price b1 w1) \<longrightarrow> k = length rs) \<longrightarrow>
          (\<forall>q \<in> set (if crossed (mark (heap w1 ! r) (next_price b1 w1)) (next_price b1 w1)
                         then take k (positions b) @ drop (Suc k) (positions b) else positions b).
             \<not> crossed (heap (marked r (next_price b1 w1) w1) ! q)
                        (currentPrice (heap (marked r (next_price b1 w1) w1) ! q))))
    \<and> account_consistent
         (closed_at k (ticked (MT5Position.symbol (heap w1 ! r)) h b1 w1) (marked r (next_price b1 w1) w1))
         (marked r (next_price b1 w1) w1)
    \<and> balance (accountInfo
         (closed_at k (ticked (MT5Position.symbol (heap w1 ! r)) h b1 w1) (marked r (next_price b1 w1) w1)))
        = balance (accountInfo b)
          + MT5Position.profit (heap (marked r (next_price b1 w1) w1) ! (positions b ! k))"
proof -
  let ?c = "next_price b1 w1"
  let ?s = "MT5Position.symbol (heap w1 ! r)"
  let ?w2 = "marked r ?c w1"
  have rdy: "ready (positions b) b w" using assms(1) by (simp add: live_def ready_def)
  have dis: "distinct rs" "r \<notin> set rs" using assms(1,2) by (simp_all add: live_def)
  have rrs: "ready rs b w" using rdy assms(2) by (simp add: ready_def)
  have d0: "drop 0 (positions b) = rs @ [r]" using assms(2) by simp
  from visit_from_kept[OF rdy d0 assms(3)] assms(4)
  have l: "positions b1 = positions b" "length (heap w1) = length (heap w)" "ready (positions b) b1 w1"
    by simp_all
  have rl: "r < length (heap w1)" using l(3) assms(2) by (simp add: ready_def)
  from l(3) assms(2,5) have ne: "h \<noteq> []" by (auto simp: ready_def has_history_def)
  have hr: "heap w1 ! r = heap w ! r"
    using remarked_all_heap_other[OF dis(2), of "(b, w)"] assms(4) by simp
  have 1: "getPositions b w =
      (if crossed (mark (heap w1 ! r) ?c) ?c
       then (Inr (take k (positions b) @ drop (Suc k) (positions b)), closed_at k (ticked ?s h b1 w1) ?w2, ?w2)
       else (Inr (positions b), ticked ?s h b1 w1, ?w2))"
    by (rule getPositions_last[OF rdy assms(2,3,4,5,6)])
  have 2: "heap ?w2 ! (rs ! j)
            = mark (heap w ! (rs ! j))
                (next_price (fst (remarked_all (take j rs) (b, w))) (snd (remarked_all (take j rs) (b, w))))
          \<and> \<not> crossed (heap ?w2 ! (rs ! j)) (currentPrice (heap ?w2 ! (rs ! j)))" if j: "j < length rs" for j
  proof -
    from j dis(2) have n: "rs ! j \<noteq> r" by (metis nth_mem)
    have o: "heap ?w2 ! (rs ! j) = heap w1 ! (rs ! j)" using n by simp
    note rv = remarked_all_visited[of rs "(b, w)" j, unfolded assms(4) fst_conv snd_conv,
        OF rrs dis(1) assms(3) j]
    show ?thesis unfolding o by (rule rv)
  qed
  have 3: "heap ?w2 ! r = mark (heap w ! r) ?c" using rl hr by simp
  have 4: "getCurrentPrice ?s (ticked ?s h b1 w1) = ?c" by (rule getCurrentPrice_ticked[OF ne])
  have 5: "marked_right (heap ?w2 ! q)" if q: "q \<in> set (positions b)" for q
  proof (cases "q = r")
    case True
    with 3 show ?thesis by (simp add: marked_right_mark)
  next
    case False
    with q assms(2) obtain j where j: "j < length rs" "q = rs ! j" by (auto simp: in_set_conv_nth)
    from 2[OF j(1)] j(2) show ?thesis by (simp add: marked_right_mark)
  qed
  have 6: "account_consistent (closed_at k (ticked ?s h b1 w1) ?w2) ?w2" by (rule closed_at_consistent)
  have ab: "accountInfo b1 = accountInfo b" using remarked_all_account[of rs "(b, w)"] assms(4) by simp
  have 7: "balance (accountInfo (closed_at k (ticked ?s h b1 w1) ?w2))
        = balance (accountInfo b) + MT5Position.profit (heap ?w2 ! (positions b ! k))"
    by (simp add: ab l(1) del: marked_fields)
  have 8: "\<not> crossed (heap ?w2 ! q) (currentPrice (heap ?w2 ! q))"
    if a: "crossed (mark (heap w1 ! r) ?c) ?c \<longrightarrow> k = length rs"
      and q: "q \<in> set (if crossed (mark (heap w1 ! r) ?c) ?c
                         then take k (positions b) @ drop (Suc k) (positions b) else positions b)" for q
  proof (cases "q \<in> set rs")
    case True
    then obtain j where j: "j < length rs" "q = rs ! j" by (auto simp: in_set_conv_nth)
    from 2[OF j(1)] j(2) show ?thesis by blast
  next
    case False
    with a q assms(2) have x: "\<not> crossed (mark (heap w1 ! r) ?c) ?c" "q = r"
      by (auto split: if_splits)
    have "crossed (heap ?w2 ! r) (currentPrice (heap ?w2 ! r)) = crossed (mark (heap w1 ! r) ?c) ?c"
      unfolding 3 hr by simp
    with x show ?thesis by simp
  qed
  show ?thesis using 1 2 3 4 5 6 7 8 by (intro conjI allI impI ballI) blast+
qed

theorem getPositions_in_turn_witness:
  "live (fst two_positions_session) (snd two_positions_session)
   \<and> positions (fst two_positions_session) = [0] @ [1]
   \<and> kept [0] two_positions_session
   \<and> findIndex (\<lambda>q. ticket (heap (snd (remarked_all [0] two_positions_session)) ! q)
                      = ticket (heap (snd (remarked_all [0] two_positions_session)) ! 1))
        (positions (fst two_positions_session)) = Some 1
   \<and> fst (getPositions (fst two_positions_session) (snd two_positions_session)) = Inr [0, 1]
   \<and> currentPrice (heap (snd (snd (getPositions (fst two_positions_session) (snd two_positions_session)))) ! 0)
       = 1.0950 * 1.000375 * 1.000375 * 1.000375
   \<and> currentPrice (heap (snd (snd (getPositions (fst two_positions_session) (snd two_positions_session)))) ! 1)
       = 1.0950 * 1.000375 * 1.000375 * 1.000375 * 1.000375
   \<and> getCurrentPrice ''EURUSD'' (fst (snd (getPositions (fst two_positions_session) (snd two_positions_session))))
       = 1.0950 * 1.000375 * 1.000375 * 1.000375 * 1.000375
   \<and> marked_right (heap (snd (snd (getPositions (fst two_positions_session) (snd two_positions_session)))) ! 0)
   \<and> marked_right (heap (snd (snd (getPositions (fst two_positions_session) (snd two_positions_session)))) ! 1)"
proof -
  from two_positions_session_facts obtain b w h where
    f: "two_positions_session = (b, w)" "connected b" "positions b = [0, 1]" "length (heap w) = 2"
       "h \<noteq> []" "marketDataHistory b ''EURUSD'' = Some h"
       "simulatedPrice b = 1.0950 * 1.000375 * 1.000375"
       "\<forall>k \<ge> 505. randoms w k = 3 / 4" "505 \<le> drawn w"
       "ticket (heap w ! 0) = 1002" "ticket (heap w ! 1) = 1005"
       "MT5Position.symbol (heap w ! 0) = ''EURUSD''" "MT5Position.symbol (heap w ! 1) = ''EURUSD''"
       "type (heap w ! 0) = PBUY" "type (heap w ! 1) = PSELL"
       "MT5Position.stopLoss (heap w ! 0) = Some 0" "MT5Position.takeProfit (heap w ! 0) = Some 10"
       "MT5Position.stopLoss (heap w ! 1) = Some 10" "MT5Position.takeProfit (heap w ! 1) = Some 0"
    by blast
  note f1 = f[unfolded One_nat_def]
  have r: "randoms w (drawn w) = 3 / 4" "randoms w (drawn w + 4) = 3 / 4" using f(8,9) by simp_all
  let ?c1 = "next_price b w"
  let ?b1 = "ticked ''EURUSD'' h b w"
  let ?w1 = "marked 0 ?c1 w"
  let ?h1 = "push_candle h (next_candle (last h) b w)"
  let ?c2 = "next_price ?b1 ?w1"
  have c1: "?c1 = 1.0950 * 1.000375 * 1.000375 * 1.000375" by (simp add: next_price_def f(7) r)
  have c2: "?c2 = 1.0950 * 1.000375 * 1.000375 * 1.000375 * 1.000375"
    by (simp add: next_price_def f(7) r)
  have lv: "live b w" by (simp add: live_def ready_def has_history_def f f1)
  have ps: "positions b = [0] @ [Suc 0]" by (simp add: f)
  have rm: "remarked_all [0] (b, w) = (?b1, ?w1)" by (simp add: remarked_def f)
  have n1: "\<not> crossed (mark (heap w ! 0) ?c1) ?c1"
    unfolding c1 by (simp add: crossed_def jle_def f)
  have kp: "kept [0] (b, w)" using n1 by simp
  have hp: "heap ?w1 ! Suc 0 = heap w ! Suc 0" by simp
  have sy: "MT5Position.symbol (heap ?w1 ! Suc 0) = ''EURUSD''" unfolding hp by (simp add: f1)
  have hh: "marketDataHistory ?b1 (MT5Position.symbol (heap ?w1 ! Suc 0)) = Some ?h1"
    unfolding sy by simp
  have fi: "findIndex (\<lambda>q. ticket (heap ?w1 ! q) = ticket (heap ?w1 ! Suc 0)) (positions b) = Some (Suc 0)"
    by (simp add: f f1)
  have n2: "\<not> crossed (mark (heap ?w1 ! Suc 0) ?c2) ?c2"
    unfolding c2 hp by (simp add: crossed_def jle_def f1)
  let ?w2 = "marked (Suc 0) ?c2 ?w1"
  let ?b2 = "ticked ''EURUSD'' ?h1 ?b1 ?w1"
  note t = getPositions_in_turn[OF lv ps kp rm hh fi, unfolded sy]
  have g: "getPositions b w = (Inr (positions b), ?b2, ?w2)"
    using conjunct1[OF t] n2 by (simp only: if_False)
  have m0: "heap ?w2 ! 0 = mark (heap w ! 0) ?c1"
    using conjunct1[OF conjunct2[OF t]] by simp
  have m1: "heap ?w2 ! Suc 0 = mark (heap w ! Suc 0) ?c2"
    by (rule conjunct1[OF conjunct2[OF conjunct2[OF t]]])
  have cu: "getCurrentPrice ''EURUSD'' ?b2 = ?c2"
    by (rule conjunct1[OF conjunct2[OF conjunct2[OF conjunct2[OF t]]]])
  have mr: "marked_right (heap ?w2 ! 0)" "marked_right (heap ?w2 ! Suc 0)"
    using conjunct1[OF conjunct2[OF conjunct2[OF conjunct2[OF conjunct2[OF t]]]]] by (simp_all add: f(3))
  define w2 where "w2 = ?w2"
  define b2 where "b2 = ?b2"
  have g': "getPositions b w = (Inr [0, 1], b2, w2)" using g by (simp add: f(3) w2_def b2_def)
  have cp0: "currentPrice (heap w2 ! 0) = 1.0950 * 1.000375 * 1.000375 * 1.000375"
    unfolding w2_def m0 using c1 by simp
  have cp1: "currentPrice (heap w2 ! 1) = 1.0950 * 1.000375 * 1.000375 * 1.000375 * 1.000375"
    unfolding w2_def One_nat_def m1 using c2 by simp
  have cu': "getCurrentPrice ''EURUSD'' b2 = 1.0950 * 1.000375 * 1.000375 * 1.000375 * 1.000375"
    unfolding b2_def cu using c2 by simp
  have mr': "marked_right (heap w2 ! 0)" "marked_right (heap w2 ! 1)"
    using mr by (simp_all add: w2_def)
  have fi': "findIndex (\<lambda>q. ticket (heap ?w1 ! q) = ticket (heap ?w1 ! 1)) (positions b) = Some 1"
    using fi by simp
  have ps': "positions b = [0] @ [1]" using ps by simp
  show ?thesis
    unfolding f(1) fst_conv snd_conv rm g'
    by (intro conjI lv kp fi' cp0 cp1 cu' mr' ps' refl)
qed

lemma getPositions_pair_uncrossed:
  assumes "connected b" "positions b = [r0, r1]" "r0 \<noteq> r1"
    "MT5Position.symbol (heap w ! r0) = s" "MT5Position.symbol (heap w ! r1) = s"
    "marketDataHistory b s = Some h" "h \<noteq> []"
    "\<not> crossed (mark (heap w ! r0) (next_price b w)) (next_price b w)"
    "\<not> crossed (mark (heap w ! r1) (next_price (ticked s h b w) (marked r0 (next_price b w) w)))
               (next_price (ticked s h b w) (marked r0 (next_price b w) w))"
  shows "getPositions b w =
     (Inr [r0, r1],
      ticked s (push_candle h (next_candle (last h) b w)) (ticked s h b w) (marked r0 (next_price b w) w),
      marked r1 (next_price (ticked s h b w) (marked r0 (next_price b w) w)) (marked r0 (next_price b w) w))"
proof -
  let ?c1 = "next_price b w"
  let ?b1 = "ticked s h b w"
  let ?w1 = "marked r0 ?c1 w"
  let ?h1 = "push_candle h (next_candle (last h) b w)"
  let ?c2 = "next_price ?b1 ?w1"
  let ?b2 = "ticked s ?h1 ?b1 ?w1"
  let ?w2 = "marked r1 ?c2 ?w1"
  have v0: "visit 0 b w = (Inr (), ?b1, ?w1)"
    using visit_uncrossed[of b 0 r0 w h] assms by simp
  have hp1: "heap ?w1 ! r1 = heap w ! r1" using assms(3) by simp
  have ne1: "?h1 \<noteq> []" using assms(7) by (rule push_candle_props(1))
  have v1: "visit 1 ?b1 ?w1 = (Inr (), ?b2, ?w2)"
    using visit_uncrossed[of ?b1 1 r1 ?w1 ?h1] assms ne1 by (simp add: hp1)
  have "visit_from 0 b w = visit_from (Suc 0) ?b1 ?w1"
    by (rule visit_from_step[OF _ v0]) (simp add: assms(2))
  also have "\<dots> = visit_from (Suc (Suc 0)) ?b2 ?w2"
    using v1 by (intro visit_from_step) (simp_all add: assms(2))
  also have "\<dots> = (Inr (), ?b2, ?w2)"
    by (rule visit_from_done) (simp add: assms(2))
  finally show ?thesis using assms(1,2) by (simp add: getPositions_def)
qed

lemma two_positions_session_eq:
  "\<exists>h b w. h \<noteq> [] \<and> two_positions_session = (b, w) \<and> connected b \<and> positions b = [0, 1]
     \<and> marketDataHistory b ''EURUSD'' = Some h
     \<and> simulatedPrice b = 1.0950 * 1.000375 * 1.000375
     \<and> (\<forall>k \<ge> 505. randoms w k = 3 / 4) \<and> 505 \<le> drawn w
     \<and> length (heap w) = 2
     \<and> MT5Position.symbol (heap w ! 0) = ''EURUSD'' \<and> MT5Position.symbol (heap w ! 1) = ''EURUSD''
     \<and> type (heap w ! 0) = PBUY \<and> type (heap w ! 1) = PSELL
     \<and> MT5Position.stopLoss (heap w ! 0) = Some 0 \<and> MT5Position.takeProfit (heap w ! 0) = Some 10
     \<and> MT5Position.stopLoss (heap w ! 1) = Some 10 \<and> MT5Position.takeProfit (heap w ! 1) = Some 0"
proof -
  from one_position_session_eq obtain h where ne: "h \<noteq> []" and
    s: "one_position_session =
     (updateAccountInfo ((ticked ''EURUSD'' h (connected_demo h) after_connect)\<lparr>positions := [0]\<rparr>)
        ((drew after_connect)\<lparr>asked := 4,
            heap := [new_position ''EURUSD'' PBUY 1 (Some 0) (Some 10) (connected_demo h) after_connect]\<rparr>),
      (drew after_connect)\<lparr>asked := 4,
            heap := [new_position ''EURUSD'' PBUY 1 (Some 0) (Some 10) (connected_demo h) after_connect]\<rparr>)"
    by blast
  let ?p = "new_position ''EURUSD'' PBUY 1 (Some 0) (Some 10) (connected_demo h) after_connect"
  let ?w = "(drew after_connect)\<lparr>asked := 4, heap := [?p]\<rparr>"
  let ?b = "updateAccountInfo ((ticked ''EURUSD'' h (connected_demo h) after_connect)\<lparr>positions := [0]\<rparr>) ?w"
  let ?h = "push_candle h (next_candle (last h) (connected_demo h) after_connect)"
  have ne2: "?h \<noteq> []" using ne by (rule push_candle_props(1))
  have t: "two_positions_session = perform (OpenPosition ''EURUSD'' PSELL 1 (Some 10) (Some 0)) one_position_session"
    by (simp add: two_positions_session_def one_position_session_def)
  have o: "openPosition ''EURUSD'' PSELL 1 (Some 10) (Some 0) ?b ?w =
     (Inr (length (heap ?w)),
      updateAccountInfo ((ticked ''EURUSD'' ?h ?b ?w)\<lparr>positions := positions ?b @ [length (heap ?w)]\<rparr>)
        ((drew ?w)\<lparr>asked := asked ?w + 3, heap := heap ?w @ [new_position ''EURUSD'' PSELL 1 (Some 10) (Some 0) ?b ?w]\<rparr>),
      (drew ?w)\<lparr>asked := asked ?w + 3, heap := heap ?w @ [new_position ''EURUSD'' PSELL 1 (Some 10) (Some 0) ?b ?w]\<rparr>)"
    by (rule openPosition_tick) (simp_all add: ne2)
  have np: "next_price ?b ?w = 1.0950 * 1.000375 * 1.000375" by (simp add: next_price_def)
  let ?w3 = "(drew ?w)\<lparr>asked := asked ?w + 3, heap := heap ?w @ [new_position ''EURUSD'' PSELL 1 (Some 10) (Some 0) ?b ?w]\<rparr>"
  let ?b3 = "updateAccountInfo ((ticked ''EURUSD'' ?h ?b ?w)\<lparr>positions := positions ?b @ [length (heap ?w)]\<rparr>) ?w3"
  let ?h3 = "push_candle ?h (next_candle (last ?h) ?b ?w)"
  have e: "two_positions_session = (?b3, ?w3)" unfolding t s by (simp add: o)
  have "?h3 \<noteq> []" using ne2 by (rule push_candle_props(1))
  moreover have "connected ?b3" "positions ?b3 = [0, 1]" "marketDataHistory ?b3 ''EURUSD'' = Some ?h3"
    by simp_all
  moreover have "simulatedPrice ?b3 = 1.0950 * 1.000375 * 1.000375" using np by simp
  moreover have "\<forall>k \<ge> 505. randoms ?w3 k = 3 / 4" "505 \<le> drawn ?w3" "length (heap ?w3) = 2"
    by simp_all
  moreover have "MT5Position.symbol (heap ?w3 ! 0) = ''EURUSD''" "MT5Position.symbol (heap ?w3 ! 1) = ''EURUSD''"
     "type (heap ?w3 ! 0) = PBUY" "type (heap ?w3 ! 1) = PSELL"
     "MT5Position.stopLoss (heap ?w3 ! 0) = Some 0" "MT5Position.takeProfit (heap ?w3 ! 0) = Some 10"
     "MT5Position.stopLoss (heap ?w3 ! 1) = Some 10" "MT5Position.takeProfit (heap ?w3 ! 1) = Some 0"
    by simp_all
  ultimately show ?thesis using e by blast
qed

text \<open>
  With two open positions a single call marks them to two different closes: each
  pass generates a candle of its own, and only the last position is at the latest
  close when the call returns.
\<close>

theorem two_positions_counterexample:
  "fst (getPositions (fst two_positions_session) (snd two_positions_session)) = Inr [0, 1]
   \<and> currentPrice (heap (snd (snd (getPositions (fst two_positions_session) (snd two_positions_session)))) ! 0)
       \<noteq> getCurrentPrice ''EURUSD'' (fst (snd (getPositions (fst two_positions_session) (snd two_positions_session))))"
proof -
  from two_positions_session_eq obtain h b w where
    f: "h \<noteq> []" "two_positions_session = (b, w)" "connected b" "positions b = [0, 1]"
       "marketDataHistory b ''EURUSD'' = Some h"
       "simulatedPrice b = 1.0950 * 1.000375 * 1.000375"
       "\<forall>k \<ge> 505. randoms w k = 3 / 4" "505 \<le> drawn w" "length (heap w) = 2"
       "MT5Position.symbol (heap w ! 0) = ''EURUSD''" "MT5Position.symbol (heap w ! 1) = ''EURUSD''"
       "type (heap w ! 0) = PBUY" "type (heap w ! 1) = PSELL"
       "MT5Position.stopLoss (heap w ! 0) = Some 0" "MT5Position.takeProfit (heap w ! 0) = Some 10"
       "MT5Position.stopLoss (heap w ! 1) = Some 10" "MT5Position.takeProfit (heap w ! 1) = Some 0"
    by blast
  have r: "randoms w (drawn w) = 3 / 4" "randoms w (drawn w + 4) = 3 / 4" using f(7,8) by simp_all
  let ?c1 = "next_price b w"
  let ?b1 = "ticked ''EURUSD'' h b w"
  let ?w1 = "marked 0 ?c1 w"
  let ?h1 = "push_candle h (next_candle (last h) b w)"
  let ?c2 = "next_price ?b1 ?w1"
  have c1: "?c1 = 1.0950 * 1.000375 * 1.000375 * 1.000375" by (simp add: next_price_def f(6) r)
  have c2: "?c2 = 1.0950 * 1.000375 * 1.000375 * 1.000375 * 1.000375"
    by (simp add: next_price_def f(6) r)
  have n1: "\<not> crossed (mark (heap w ! 0) ?c1) ?c1"
    unfolding c1 by (simp add: crossed_def jle_def f)
  have n2: "\<not> crossed (mark (heap w ! 1) ?c2) ?c2"
    unfolding c2 by (simp add: crossed_def jle_def f f[unfolded One_nat_def])
  have g: "getPositions b w = (Inr [0, 1], ticked ''EURUSD'' ?h1 ?b1 ?w1, marked 1 ?c2 ?w1)"
    by (rule getPositions_pair_uncrossed[OF f(3,4) _ f(10,11,5,1) n1 n2]) simp
  have ne1: "?h1 \<noteq> []" using f(1) by (rule push_candle_props(1))
  have cur: "getCurrentPrice ''EURUSD'' (ticked ''EURUSD'' ?h1 ?b1 ?w1) = ?c2"
    by (rule getCurrentPrice_ticked[OF ne1])
  have m: "currentPrice (heap (marked (Suc 0) ?c2 ?w1) ! 0) = ?c1" using f(9) by simp
  have "?c1 \<noteq> ?c2" by (subst c2, subst c1) simp
  then show ?thesis unfolding f(2) by (simp add: g cur m del: marked_fields)
qed

lemma skipping_session_facts:
  "\<exists>b w h. skipping_session = (b, w) \<and> connected b \<and> positions b = [0, 1] \<and> length (heap w) = 2
     \<and> h \<noteq> [] \<and> marketDataHistory b ''EURUSD'' = Some h
     \<and> simulatedPrice b = 1.0950 \<and> drawn w = 513 \<and> randoms w 513 = 0
     \<and> ticket (heap w ! 0) = 1002 \<and> ticket (heap w ! 1) = 1005
     \<and> MT5Position.symbol (heap w ! 0) = ''EURUSD'' \<and> MT5Position.symbol (heap w ! 1) = ''EURUSD''
     \<and> type (heap w ! 0) = PBUY \<and> type (heap w ! 1) = PSELL
     \<and> openPrice (heap w ! 0) = 1.0950 \<and> currentPrice (heap w ! 1) = 1.0950
     \<and> MT5Position.stopLoss (heap w ! 0) = Some 1.0945 \<and> MT5Position.takeProfit (heap w ! 0) = Some 2
     \<and> MT5Position.stopLoss (heap w ! 1) = Some 2 \<and> MT5Position.takeProfit (heap w ! 1) = Some 1.0945"
proof -
  let ?W0 = "calm_until 513 0"
  from connect_demo[of 513 0] obtain h0 where
    h0: "length h0 = 101"
        "connect demo_config new_MT5Bridge ?W0 = (Inr True, connected_demo h0, ?W0\<lparr>drawn := 505, asked := 1\<rparr>)"
    by auto
  define W where "W = ?W0\<lparr>drawn := 505, asked := 1\<rparr>"
  have W: "drawn W = 505" "asked W = 1" "heap W = []" "randoms W = randoms ?W0" "clock W = clock ?W0"
    by (simp_all add: W_def calm_until_def)
  have ne0: "h0 \<noteq> []" using h0(1) by auto
  let ?p0 = "new_position ''EURUSD'' PBUY 1 (Some 1.0945) (Some 2) (connected_demo h0) W"
  define w1 where "w1 = (drew W)\<lparr>asked := asked W + 3, heap := heap W @ [?p0]\<rparr>"
  define b1 where "b1 = updateAccountInfo ((ticked ''EURUSD'' h0 (connected_demo h0) W)
                           \<lparr>positions := positions (connected_demo h0) @ [length (heap W)]\<rparr>) w1"
  define h1 where "h1 = push_candle h0 (next_candle (last h0) (connected_demo h0) W)"
  have o1: "openPosition ''EURUSD'' PBUY 1 (Some 1.0945) (Some 2) (connected_demo h0) W = (Inr (length (heap W)), b1, w1)"
    unfolding b1_def w1_def by (rule openPosition_tick) (simp_all add: ne0)
  have np0: "next_price (connected_demo h0) W = 1.0950"
    by (simp add: next_price_def W calm_until_def)
  have ne1: "h1 \<noteq> []" unfolding h1_def using ne0 by (rule push_candle_props(1))
  have w1: "drawn w1 = 509" "asked w1 = 4" "heap w1 = [?p0]" "randoms w1 = randoms ?W0" "clock w1 = clock ?W0"
    by (simp_all add: w1_def W)
  have b1: "connected b1" "positions b1 = [0]" "marketDataHistory b1 ''EURUSD'' = Some h1" "simulatedPrice b1 = 1.0950"
    by (simp_all add: b1_def h1_def W np0)
  let ?p1 = "new_position ''EURUSD'' PSELL 1 (Some 2) (Some 1.0945) b1 w1"
  define w2 where "w2 = (drew w1)\<lparr>asked := asked w1 + 3, heap := heap w1 @ [?p1]\<rparr>"
  define b2 where "b2 = updateAccountInfo ((ticked ''EURUSD'' h1 b1 w1)
                           \<lparr>positions := positions b1 @ [length (heap w1)]\<rparr>) w2"
  define h2 where "h2 = push_candle h1 (next_candle (last h1) b1 w1)"
  have o2: "openPosition ''EURUSD'' PSELL 1 (Some 2) (Some 1.0945) b1 w1 = (Inr (length (heap w1)), b2, w2)"
    unfolding b2_def w2_def by (rule openPosition_tick[OF b1(1,3) ne1])
  have np1: "next_price b1 w1 = 1.0950"
    by (simp add: next_price_def w1 b1 calm_until_def)
  have ne2: "h2 \<noteq> []" unfolding h2_def using ne1 by (rule push_candle_props(1))
  have e0: "perform (Connect demo_config) (new_MT5Bridge, ?W0) = (connected_demo h0, W)"
    by (simp add: h0(2) W_def)
  have e1: "perform (OpenPosition ''EURUSD'' PBUY 1 (Some 1.0945) (Some 2)) (connected_demo h0, W) = (b1, w1)"
    unfolding perform.simps o1 by simp
  have e2: "perform (OpenPosition ''EURUSD'' PSELL 1 (Some 2) (Some 1.0945)) (b1, w1) = (b2, w2)"
    unfolding perform.simps o2 by simp
  have e: "skipping_session = (b2, w2)"
    unfolding skipping_session_def perform_all.simps e0 e1 e2 ..
  have "connected b2" "positions b2 = [0, 1]" "length (heap w2) = 2" "marketDataHistory b2 ''EURUSD'' = Some h2"
    "simulatedPrice b2 = 1.0950" "drawn w2 = 513" "randoms w2 513 = 0"
    "ticket (heap w2 ! 0) = 1002" "ticket (heap w2 ! 1) = 1005"
    "MT5Position.symbol (heap w2 ! 0) = ''EURUSD''" "MT5Position.symbol (heap w2 ! 1) = ''EURUSD''"
    "type (heap w2 ! 0) = PBUY" "type (heap w2 ! 1) = PSELL"
    "openPrice (heap w2 ! 0) = 1.0950" "currentPrice (heap w2 ! 1) = 1.0950"
    "MT5Position.stopLoss (heap w2 ! 0) = Some 1.0945" "MT5Position.takeProfit (heap w2 ! 0) = Some 2"
    "MT5Position.stopLoss (heap w2 ! 1) = Some 2" "MT5Position.takeProfit (heap w2 ! 1) = Some 1.0945"
    by (simp_all add: b2_def w2_def h2_def w1 b1 W np0 np1 calm_until_def)
  with e ne2 show ?thesis by blast
qed

text \<open>
  When a visit closes a position that is not the last of the array, the array shrinks
  under the iterator and the position that followed the closed one is not visited in
  that call. Here a BUY and a SELL are open, the price falls below the stop of the first
  and the target of the second: the call closes the first and returns the second,
  which is still at its old price although the latest close has crossed its target.
\<close>

lemma getPositions_skips_next:
  "positions (fst skipping_session) = [0, 1]
   \<and> fst (getPositions (fst skipping_session) (snd skipping_session)) = Inr [1]
   \<and> currentPrice (heap (snd (snd (getPositions (fst skipping_session) (snd skipping_session)))) ! 1) = 1.0950
   \<and> getCurrentPrice ''EURUSD'' (fst (snd (getPositions (fst skipping_session) (snd skipping_session))))
        = 1.0950 * 0.99925
   \<and> crossed (heap (snd (snd (getPositions (fst skipping_session) (snd skipping_session)))) ! 1)
        (getCurrentPrice ''EURUSD'' (fst (snd (getPositions (fst skipping_session) (snd skipping_session)))))"
proof -
  from skipping_session_facts obtain b w h where
    f: "skipping_session = (b, w)" "connected b" "positions b = [0, 1]" "length (heap w) = 2"
       "h \<noteq> []" "marketDataHistory b ''EURUSD'' = Some h"
       "simulatedPrice b = 1.0950" "drawn w = 513" "randoms w 513 = 0"
       "ticket (heap w ! 0) = 1002" "ticket (heap w ! 1) = 1005"
       "MT5Position.symbol (heap w ! 0) = ''EURUSD''" "MT5Position.symbol (heap w ! 1) = ''EURUSD''"
       "type (heap w ! 0) = PBUY" "type (heap w ! 1) = PSELL"
       "openPrice (heap w ! 0) = 1.0950" "currentPrice (heap w ! 1) = 1.0950"
       "MT5Position.stopLoss (heap w ! 0) = Some 1.0945" "MT5Position.takeProfit (heap w ! 0) = Some 2"
       "MT5Position.stopLoss (heap w ! 1) = Some 2" "MT5Position.takeProfit (heap w ! 1) = Some 1.0945"
    by blast
  note f1 = f[unfolded One_nat_def]
  define c where "c = next_price b w"
  have c: "c = 1.0950 * 0.99925" by (simp add: c_def next_price_def f)
  define b1 where "b1 = ticked ''EURUSD'' h b w"
  define w1 where "w1 = marked 0 c w"
  have x: "crossed (mark (heap w ! 0) c) c" by (simp add: crossed_def jle_def f c)
  have h0: "marketDataHistory b (MT5Position.symbol (heap w ! (positions b ! 0))) = Some h"
    by (simp add: f)
  have fi: "findIndex (\<lambda>q. ticket (heap w1 ! q) = ticket (heap w ! 0)) (positions b1) = Some 0"
    by (simp add: w1_def b1_def f)
  have cb1: "connected b1" by (simp add: b1_def f)
  note cp = closePosition_first[OF cb1 fi]
  have v: "visit 0 b w = (Inr (), closed_at 0 b1 w1, w1)"
    using visit_step[OF f(2) h0 f(5)] x cp
    by (simp add: f c_def[symmetric] b1_def[symmetric] w1_def[symmetric])
  have "visit_from 0 b w = visit_from (Suc 0) (closed_at 0 b1 w1) w1"
    by (rule visit_from_step[OF _ v]) (simp add: f)
  also have "\<dots> = (Inr (), closed_at 0 b1 w1, w1)"
    by (rule visit_from_done) (simp add: b1_def f)
  finally have g: "getPositions b w = (Inr [1], closed_at 0 b1 w1, w1)"
    by (simp add: getPositions_def f b1_def)
  have cur: "getCurrentPrice ''EURUSD'' (closed_at 0 b1 w1) = c"
    using getCurrentPrice_ticked[OF f(5), of "''EURUSD''" b w]
          getCurrentPrice_cong[of "closed_at 0 b1 w1" b1 "''EURUSD''"]
    by (simp add: b1_def c_def)
  have hp: "heap w1 ! 1 = heap w ! 1" by (simp add: w1_def)
  have cp1: "currentPrice (heap w1 ! 1) = 1.0950" unfolding hp by (rule f(17))
  have cr: "crossed (heap w1 ! 1) c" unfolding hp by (simp add: crossed_def jle_def f1 c)
  have c': "c = 1.0950 * 0.99925" by (rule c)
  show ?thesis
    unfolding f(1) fst_conv snd_conv g cur
    by (intro conjI f(3) refl cp1 c' cr)
qed
section \<open>tradingBot.ts: properties\<close>

lemma managePositions_sole_crossed:
  assumes "connected (mt5 tbot)" "positions (mt5 tbot) = [r]" "r < length (heap w)"
    "marketDataHistory (mt5 tbot) (MT5Position.symbol (heap w ! r)) = Some h" "h \<noteq> []"
    "crossed (mark (heap w ! r) (next_price (mt5 tbot) w)) (next_price (mt5 tbot) w)"
  shows "managePositions tf md tbot w =
           (tbot\<lparr>mt5 := settled 0 h (mt5 tbot) w\<rparr>, marked r (next_price (mt5 tbot) w) w)"
proof -
  have s0: "settled 0 h (mt5 tbot) w = updateAccountInfo
              ((ticked (MT5Position.symbol (heap w ! r)) h (mt5 tbot) w)
                 \<lparr>accountInfo := (accountInfo (mt5 tbot))
                     \<lparr>balance := balance (accountInfo (mt5 tbot))
                                   + MT5Position.profit (mark (heap w ! r) (next_price (mt5 tbot) w)),
                      MT5AccountInfo.profit := MT5AccountInfo.profit (accountInfo (mt5 tbot))
                                   - MT5Position.profit (mark (heap w ! r) (next_price (mt5 tbot) w))\<rparr>,
                  positions := []\<rparr>)
              (marked r (next_price (mt5 tbot) w) w)"
    by (simp add: settled_def Let_def assms(2))
  from getPositions_single[OF assms(1,2,4,5,3)] assms(6)
  have "getPositions (mt5 tbot) w = (Inr [], settled 0 h (mt5 tbot) w, marked r (next_price (mt5 tbot) w) w)"
    unfolding s0 by simp
  then show ?thesis by (simp add: managePositions_def)
qed

lemma analyze_quiet_sole_crossed:
  assumes "status tbot = Running" "connected (mt5 tbot)" "positions (mt5 tbot) = [r]" "r < length (heap w)"
    "MT5Position.symbol (heap w ! r) = BotConfig.symbol (config tbot)"
    "marketDataHistory (mt5 tbot) (BotConfig.symbol (config tbot)) = Some h" "h \<noteq> []"
    "confidence (analyzeMarket tf (aiEngine tbot)
        (slice_last 100 (push_candle h (next_candle (last h) (mt5 tbot) w))))
       < minConfidence (config tbot)"
    "crossed (mark (heap w ! r) (next_price (ticked (BotConfig.symbol (config tbot)) h (mt5 tbot) w) (drew w)))
             (next_price (ticked (BotConfig.symbol (config tbot)) h (mt5 tbot) w) (drew w))"
  shows "mt5 (fst (analyze tf tbot w))
           = settled 0 (push_candle h (next_candle (last h) (mt5 tbot) w))
               (ticked (BotConfig.symbol (config tbot)) h (mt5 tbot) w) (drew w)"
    and "snd (analyze tf tbot w)
           = marked r (next_price (ticked (BotConfig.symbol (config tbot)) h (mt5 tbot) w) (drew w)) (drew w)"
    and "tradeHistory (fst (analyze tf tbot w)) = tradeHistory tbot"
    and "tradesNotified (fst (analyze tf tbot w)) = tradesNotified tbot"
    and "updatesRequested (fst (analyze tf tbot w)) = updatesRequested tbot"
    and "aiEngine (fst (analyze tf tbot w)) = aiEngine tbot"
proof -
  let ?s = "BotConfig.symbol (config tbot)"
  let ?b1 = "ticked ?s h (mt5 tbot) w"
  let ?h1 = "push_candle h (next_candle (last h) (mt5 tbot) w)"
  let ?md = "slice_last 100 ?h1"
  let ?sig = "analyzeMarket tf (aiEngine tbot) ?md"
  define bot2 where "bot2 = (if onAnalysisComplete (tbot\<lparr>mt5 := ?b1\<rparr>)
      then (tbot\<lparr>mt5 := ?b1\<rparr>)\<lparr>signalsNotified := signalsNotified (tbot\<lparr>mt5 := ?b1\<rparr>) @ [?sig]\<rparr>
      else tbot\<lparr>mt5 := ?b1\<rparr>)"
  have g: "getMarketData ?s 100 (mt5 tbot) w = (Inr ?md, ?b1, drew w)"
    by (rule getMarketData_tick[OF assms(2,6,7)])
  have ne: "?h1 \<noteq> []" using assms(7) by (rule push_candle_props(1))
  have b2: "mt5 bot2 = ?b1" "tradeHistory bot2 = tradeHistory tbot" "tradesNotified bot2 = tradesNotified tbot"
    "updatesRequested bot2 = updatesRequested tbot" "aiEngine bot2 = aiEngine tbot"
    "config bot2 = config tbot"
    by (simp_all add: bot2_def)
  have p: "connected (mt5 bot2)" "positions (mt5 bot2) = [r]" "r < length (heap (drew w))"
    "marketDataHistory (mt5 bot2) (MT5Position.symbol (heap (drew w) ! r)) = Some ?h1"
    "crossed (mark (heap (drew w) ! r) (next_price (mt5 bot2) (drew w))) (next_price (mt5 bot2) (drew w))"
    using assms by (simp_all add: b2)
  have m: "managePositions tf ?md bot2 (drew w)
      = (bot2\<lparr>mt5 := settled 0 ?h1 (mt5 bot2) (drew w)\<rparr>, marked r (next_price (mt5 bot2) (drew w)) (drew w))"
    by (rule managePositions_sole_crossed[OF p(1,2,3,4) ne p(5)])
  have a: "analyze tf tbot w = managePositions tf ?md bot2 (drew w)"
    using assms(1,8) by (simp add: analyze_def g Let_def bot2_def)
  show "mt5 (fst (analyze tf tbot w)) = settled 0 ?h1 ?b1 (drew w)"
    unfolding a m by (simp add: b2)
  show "snd (analyze tf tbot w) = marked r (next_price ?b1 (drew w)) (drew w)"
    unfolding a m by (simp add: b2)
  show "tradeHistory (fst (analyze tf tbot w)) = tradeHistory tbot"
    unfolding a m by (simp add: b2)
  show "tradesNotified (fst (analyze tf tbot w)) = tradesNotified tbot"
    unfolding a m by (simp add: b2)
  show "updatesRequested (fst (analyze tf tbot w)) = updatesRequested tbot"
    unfolding a m by (simp add: b2)
  show "aiEngine (fst (analyze tf tbot w)) = aiEngine tbot"
    unfolding a m by (simp add: b2)
qed


end
